theory Spec2Isabelle
  imports Complex_Main "HOL-Library.Signed_Division"
begin

section \<open>The \<^verbatim>\<open>Decimal\<close> values of the quote engine\<close>

text \<open>
  Amounts, reserves and prices are \<^verbatim>\<open>Decimal\<close> objects of decimal.js.  The repository
  never changes the library's configuration, so its defaults apply: every arithmetic
  result (\<^verbatim>\<open>mul\<close>, \<^verbatim>\<open>div\<close>, \<^verbatim>\<open>add\<close>, \<^verbatim>\<open>minus\<close>) is rounded to \<^verbatim>\<open>precision = 20\<close>
  significant digits with rounding mode \<^verbatim>\<open>ROUND_HALF_UP\<close> (to nearest, ties away from
  zero); the constructor and \<^verbatim>\<open>floor\<close> do not round to the precision.  A value is
  \<^verbatim>\<open>NaN\<close>, an infinity or a finite decimal number; a finite one is modelled by the
  rational number it denotes.  The sign of a zero is not modelled (it only decides the
  sign of an infinite quotient), nor is the exponent limit of \<open>9 \<times> 10\<^sup>1\<^sup>5\<close>.
\<close>

datatype decimal = NaN | PosInf | NegInf | Fin rat

definition precision :: nat where
  "precision = 20"

definition pow10 :: "int \<Rightarrow> rat" where
  "pow10 k = (if 0 \<le> k then 10 ^ nat k else 1 / 10 ^ nat (- k))"

text \<open>Number of decimal digits of a non-negative integer (\<open>1\<close> below \<open>10\<close>).\<close>

function ndigits :: "int \<Rightarrow> int" where
  "ndigits n = (if n < 10 then 1 else 1 + ndigits (n div 10))"
  by pat_completeness auto
termination
  by (relation "measure nat") auto

declare ndigits.simps [simp del]

text \<open>
  The decimal exponent of a positive number: \<open>dexp x = e\<close> with
  \<open>10\<^sup>e \<le> x < 10\<^sup>e\<^sup>+\<^sup>1\<close>.
\<close>

definition dexp :: "rat \<Rightarrow> int" where
  "dexp x =
     (if 1 \<le> x then ndigits \<lfloor>x\<rfloor> - 1
      else (let k = ndigits \<lfloor>1 / x\<rfloor>
            in if x = pow10 (1 - k) then 1 - k else - k))"

text \<open>
  \<^verbatim>\<open>finalise(x, precision, ROUND_HALF_UP)\<close>: the nearest number with at most \<open>sd\<close>
  significant digits, a tie going away from zero.
\<close>

definition finalise :: "nat \<Rightarrow> rat \<Rightarrow> rat" where
  "finalise sd x =
     (if x = 0 then 0
      else (let a = \<bar>x\<bar>; u = pow10 (dexp a - int sd + 1)
            in sgn x * (of_int \<lfloor>a / u + 1 / 2\<rfloor> * u)))"

definition dneg :: "decimal \<Rightarrow> bool" where
  "dneg a = (case a of NegInf \<Rightarrow> True | Fin x \<Rightarrow> x < 0 | _ \<Rightarrow> False)"

definition inf_signed :: "bool \<Rightarrow> decimal" where
  "inf_signed neg = (if neg then NegInf else PosInf)"

fun dmul :: "decimal \<Rightarrow> decimal \<Rightarrow> decimal" where
  "dmul NaN b = NaN"
| "dmul a NaN = NaN"
| "dmul (Fin x) (Fin y) = Fin (finalise precision (x * y))"
| "dmul a b = (if a = Fin 0 \<or> b = Fin 0 then NaN else inf_signed (dneg a \<noteq> dneg b))"

fun ddiv :: "decimal \<Rightarrow> decimal \<Rightarrow> decimal" where
  "ddiv NaN b = NaN"
| "ddiv a NaN = NaN"
| "ddiv (Fin x) (Fin y) =
     (if y = 0 then (if x = 0 then NaN else inf_signed (x < 0))
      else Fin (finalise precision (x / y)))"
| "ddiv (Fin x) b = Fin 0"
| "ddiv a (Fin y) = inf_signed (dneg a \<noteq> (y < 0))"
| "ddiv a b = NaN"

fun dadd :: "decimal \<Rightarrow> decimal \<Rightarrow> decimal" where
  "dadd NaN b = NaN"
| "dadd a NaN = NaN"
| "dadd (Fin x) (Fin y) = Fin (finalise precision (x + y))"
| "dadd (Fin x) b = b"
| "dadd a (Fin y) = a"
| "dadd a b = (if a = b then a else NaN)"

fun dnegate :: "decimal \<Rightarrow> decimal" where
  "dnegate NaN = NaN"
| "dnegate PosInf = NegInf"
| "dnegate NegInf = PosInf"
| "dnegate (Fin x) = Fin (- x)"

definition dminus :: "decimal \<Rightarrow> decimal \<Rightarrow> decimal" where
  "dminus a b = dadd a (dnegate b)"

fun dfloor :: "decimal \<Rightarrow> decimal" where
  "dfloor (Fin x) = Fin (of_int \<lfloor>x\<rfloor>)"
| "dfloor a = a"

definition isZero :: "decimal \<Rightarrow> bool" where
  "isZero a = (a = Fin 0)"

text \<open>\<^verbatim>\<open>a.gt(0)\<close>\<close>

definition gt0 :: "decimal \<Rightarrow> bool" where
  "gt0 a = (case a of PosInf \<Rightarrow> True | Fin x \<Rightarrow> 0 < x | _ \<Rightarrow> False)"

text \<open>\<^verbatim>\<open>new Decimal(n)\<close> for an integral JavaScript number: exact.\<close>

definition of_number :: "int \<Rightarrow> decimal" where
  "of_number n = Fin (of_int n)"

text \<open>
  \<^verbatim>\<open>new Decimal(b).pow(n)\<close> for the two uses in the source, \<open>10\<^sup>n\<close> (one significant
  digit) and \<open>2\<^sup>6\<^sup>4\<close> (twenty digits): both results fit the precision.
\<close>

definition dpow :: "nat \<Rightarrow> nat \<Rightarrow> decimal" where
  "dpow b n = Fin (finalise precision (of_nat (b ^ n)))"

section \<open>Pool records and quotes (pools/types, pools/poolManager, pools/raydium)\<close>

type_synonym PublicKey = string

datatype dex = raydium | orca | pumpfun | pumpswap

datatype poolType = amm_v4 | clmm | cpmm | whirlpool | bonding_curve

text \<open>
  \<^verbatim>\<open>PoolInfo\<close>, with the fields the quoting and execution code reads.  \<open>oid\<close> is the
  identity of the JavaScript object: the executor compares two pools with \<^verbatim>\<open>!==\<close>.
  \<^verbatim>\<open>fee\<close> is a JavaScript number holding whole basis points.
\<close>

record PoolInfo =
  oid :: nat
  address :: PublicKey
  dex :: dex
  poolType :: poolType
  tokenA :: PublicKey
  tokenB :: PublicKey
  reserveA :: decimal
  reserveB :: decimal
  fee :: int
  lastUpdate :: int
  decimalsA :: "nat option"
  decimalsB :: "nat option"
  sqrtPriceX64 :: "decimal option"
  orcaApiPrice :: "decimal option"

record PriceQuote =
  pool :: PoolInfo
  inputMint :: PublicKey
  outputMint :: PublicKey
  inputAmount :: decimal
  outputAmount :: decimal
  priceImpact :: decimal
  effectivePrice :: decimal

text \<open>
  \<^verbatim>\<open>
  private getAmountOut(amountIn, reserveIn, reserveOut, feeBps) {
    const feeMultiplier = new Decimal(10000 - feeBps).div(10000);
    const effectiveIn = amountIn.mul(feeMultiplier);
    return effectiveIn.mul(reserveOut).div(reserveIn.add(effectiveIn)).floor();
  }\<close>
\<close>

definition getAmountOut :: "decimal \<Rightarrow> decimal \<Rightarrow> decimal \<Rightarrow> int \<Rightarrow> decimal" where
  "getAmountOut amountIn reserveIn reserveOut feeBps =
     (let feeMultiplier = ddiv (of_number (10000 - feeBps)) (of_number 10000);
          effectiveIn = dmul amountIn feeMultiplier
      in dfloor (ddiv (dmul effectiveIn reserveOut) (dadd reserveIn effectiveIn)))"

text \<open>
  \<^verbatim>\<open>RaydiumFetcher.getAmountOut\<close>: the same computation with named numerator and
  denominator.
\<close>

definition RaydiumFetcher_getAmountOut :: "decimal \<Rightarrow> decimal \<Rightarrow> decimal \<Rightarrow> int \<Rightarrow> decimal" where
  "RaydiumFetcher_getAmountOut amountIn reserveIn reserveOut feeBps =
     (let feeMultiplier = ddiv (of_number (10000 - feeBps)) (of_number 10000);
          effectiveIn = dmul amountIn feeMultiplier;
          numerator = dmul effectiveIn reserveOut;
          denominator = dadd reserveIn effectiveIn
      in dfloor (ddiv numerator denominator))"

text \<open>\<^verbatim>\<open>pool.decimalsA || 9\<close>: an absent or zero value gives \<open>9\<close>.\<close>

definition or9 :: "nat option \<Rightarrow> nat" where
  "or9 d = (case d of None \<Rightarrow> 9 | Some n \<Rightarrow> if n = 0 then 9 else n)"

text \<open>
  \<^verbatim>\<open>PoolManager.getQuote\<close>.  The first branch needs a present and positive
  \<^verbatim>\<open>orcaApiPrice\<close>; the second a concentrated-liquidity pool type and a present
  \<^verbatim>\<open>sqrtPriceX64\<close> (an object, so truthy whatever its value); the last is the
  constant-product formula.
\<close>

definition getQuote :: "PoolInfo \<Rightarrow> PublicKey \<Rightarrow> decimal \<Rightarrow> PriceQuote" where
  "getQuote p inMint amountIn =
     (let isForward = (tokenA p = inMint);
          reserveIn = (if isForward then reserveA p else reserveB p);
          reserveOut = (if isForward then reserveB p else reserveA p);
          outMint = (if isForward then tokenB p else tokenA p);
          out =
            (if (case orcaApiPrice p of None \<Rightarrow> False | Some pr \<Rightarrow> gt0 pr) then
               (let decA = or9 (decimalsA p);
                    decB = or9 (decimalsB p);
                    rawPrice = ddiv (dmul (the (orcaApiPrice p)) (dpow 10 decB)) (dpow 10 decA);
                    feeMultiplier = ddiv (of_number (10000 - fee p)) (of_number 10000);
                    effectiveIn = dmul amountIn feeMultiplier
                in if isForward then dfloor (dmul effectiveIn rawPrice)
                   else dfloor (ddiv effectiveIn rawPrice))
             else if (poolType p = whirlpool \<or> poolType p = clmm) \<and> sqrtPriceX64 p \<noteq> None then
               (let Q64 = dpow 2 64;
                    sqrtPrice = ddiv (the (sqrtPriceX64 p)) Q64;
                    price = dmul sqrtPrice sqrtPrice;
                    feeMultiplier = ddiv (of_number (10000 - fee p)) (of_number 10000);
                    effectiveIn = dmul amountIn feeMultiplier
                in if isForward then dfloor (dmul effectiveIn price)
                   else dfloor (ddiv effectiveIn price))
             else getAmountOut amountIn reserveIn reserveOut (fee p));
          actualRate = (if isZero amountIn then Fin 0 else ddiv out amountIn);
          idealRate = (if isZero reserveIn then Fin 0 else ddiv reserveOut reserveIn);
          impact = (if isZero idealRate then Fin 0
                    else dminus (Fin 1) (ddiv actualRate idealRate))
      in \<lparr>pool = p, inputMint = inMint, outputMint = outMint, inputAmount = amountIn,
          outputAmount = out, priceImpact = impact, effectivePrice = actualRate\<rparr>)"


text \<open>
  The spec's typed result of the Quote Engine.  \<^verbatim>\<open>getQuote\<close> has no error return
  and no \<^verbatim>\<open>throw\<close>: every call yields a quote.
\<close>

datatype quote_result = InvalidPool | QuoteUnavailable | Quoted PriceQuote


text \<open>\<^verbatim>\<open>a.lt(b)\<close> and \<^verbatim>\<open>a.lte(b)\<close>; a comparison with \<^verbatim>\<open>NaN\<close> is false.\<close>

fun dlt :: "decimal \<Rightarrow> decimal \<Rightarrow> bool" where
  "dlt NaN b = False"
| "dlt a NaN = False"
| "dlt (Fin x) (Fin y) = (x < y)"
| "dlt a PosInf = (a \<noteq> PosInf)"
| "dlt NegInf b = (b \<noteq> NegInf)"
| "dlt a b = False"

definition dlte :: "decimal \<Rightarrow> decimal \<Rightarrow> bool" where
  "dlte a b = (a \<noteq> NaN \<and> b \<noteq> NaN \<and> (a = b \<or> dlt a b))"

text \<open>
  Quoting an amount through a pool and quoting the proceeds back through the same
  pool: the second quote's input mint is the first quote's output mint.
\<close>

definition roundTrip :: "PoolInfo \<Rightarrow> PublicKey \<Rightarrow> decimal \<Rightarrow> decimal" where
  "roundTrip p inMint amountIn =
     (let q1 = getQuote p inMint amountIn;
          q2 = getQuote p (outputMint q1) (outputAmount q1)
      in outputAmount q2)"

text \<open>
  The constant-product formula in the spec's words, over exact numbers: the effective
  input \<open>in \<sqdot> (10000 - feeBps) / 10000\<close>, and one floor, on the final division.
\<close>

definition spec_amountOut :: "rat \<Rightarrow> rat \<Rightarrow> rat \<Rightarrow> int \<Rightarrow> int" where
  "spec_amountOut amountIn reserveIn reserveOut feeBps =
     (let effIn = amountIn * of_int (10000 - feeBps) / 10000
      in \<lfloor>effIn * reserveOut / (reserveIn + effIn)\<rfloor>)"


text \<open>
  Half a unit in the twentieth significant digit, relative to the leading digit: the
  largest relative error of one rounded operation.
\<close>

definition eps :: rat where
  "eps = 1 / (2 * 10 ^ 19)"

text \<open>
  Bounds on the accumulated relative error: \<open>C\<close> for the operations of one quote
  after the effective input, \<open>K\<close> for a whole quote.
\<close>

definition K :: rat where "K = (1 + eps) ^ 4 / (1 - eps)"

definition C :: rat where "C = (1 + eps)\<^sup>2 / (1 - eps)"

text \<open>
  A pool with two different mints, positive finite reserves, a fee of at most 10000 bps
  and, where it has them, a finite API price and a positive finite square-root price.
\<close>

definition positive :: "decimal \<Rightarrow> bool" where
  "positive d = (case d of Fin x \<Rightarrow> 0 < x | _ \<Rightarrow> False)"

definition sound_pool :: "PoolInfo \<Rightarrow> bool" where
  "sound_pool p =
     (tokenA p \<noteq> tokenB p \<and> 0 \<le> fee p \<and> fee p \<le> 10000 \<and>
      positive (reserveA p) \<and> positive (reserveB p) \<and>
      (case orcaApiPrice p of None \<Rightarrow> True | Some pr \<Rightarrow> pr \<noteq> PosInf) \<and>
      (case sqrtPriceX64 p of None \<Rightarrow> True | Some sp \<Rightarrow> positive sp))"

section \<open>Bonding-curve quotes (pools/pumpfun)\<close>

text \<open>
  \<^verbatim>\<open>BondingCurveData\<close>: the fields are JavaScript \<^verbatim>\<open>bigint\<close> values (unbounded
  integers).  \<^verbatim>\<open>parseBondingCurve\<close> fills them with \<^verbatim>\<open>readBigUInt64LE\<close>, but the quote
  functions accept any bigint.
\<close>

record BondingCurveData =
  virtualTokenReserves :: int
  virtualSolReserves :: int
  realTokenReserves :: int
  realSolReserves :: int
  tokenTotalSupply :: int
  complete :: bool

text \<open>A thrown JavaScript value.\<close>

datatype js_error = RangeError | Error string

text \<open>
  Division of bigints truncates towards zero and throws \<^verbatim>\<open>RangeError\<close> on a zero
  divisor.
\<close>

definition bigint_div :: "int \<Rightarrow> int \<Rightarrow> js_error + int" where
  "bigint_div a b = (if b = 0 then Inl RangeError else Inr (a sdiv b))"

text \<open>
  \<^verbatim>\<open>
  export function getBuyQuote(curve, solIn) {
    const solAfterFee = solIn * 99n / 100n; // 1% fee
    const newSolReserves = curve.virtualSolReserves + solAfterFee;
    const k = curve.virtualTokenReserves * curve.virtualSolReserves;
    const newTokenReserves = k / newSolReserves;
    return curve.virtualTokenReserves - newTokenReserves;
  }\<close>
\<close>

definition getBuyQuote :: "BondingCurveData \<Rightarrow> int \<Rightarrow> js_error + int" where
  "getBuyQuote curve solIn =
     (case bigint_div (solIn * 99) 100 of
        Inl e \<Rightarrow> Inl e
      | Inr solAfterFee \<Rightarrow>
          (let newSolReserves = virtualSolReserves curve + solAfterFee;
               k = virtualTokenReserves curve * virtualSolReserves curve
           in case bigint_div k newSolReserves of
                Inl e \<Rightarrow> Inl e
              | Inr newTokenReserves \<Rightarrow> Inr (virtualTokenReserves curve - newTokenReserves)))"

text \<open>
  \<^verbatim>\<open>
  export function getSellQuote(curve, tokensIn) {
    const newTokenReserves = curve.virtualTokenReserves + tokensIn;
    const k = curve.virtualTokenReserves * curve.virtualSolReserves;
    const newSolReserves = k / newTokenReserves;
    const solOut = curve.virtualSolReserves - newSolReserves;
    return solOut * 99n / 100n; // 1% fee
  }\<close>
\<close>

definition getSellQuote :: "BondingCurveData \<Rightarrow> int \<Rightarrow> js_error + int" where
  "getSellQuote curve tokensIn =
     (let newTokenReserves = virtualTokenReserves curve + tokensIn;
          k = virtualTokenReserves curve * virtualSolReserves curve
      in case bigint_div k newTokenReserves of
           Inl e \<Rightarrow> Inl e
         | Inr newSolReserves \<Rightarrow>
             (let solOut = virtualSolReserves curve - newSolReserves
              in bigint_div (solOut * 99) 100))"

section \<open>The executor (execution/executor)\<close>

subsection \<open>The outside world\<close>

text \<open>
  The executor talks to the chain through a \<^verbatim>\<open>Connection\<close>.  Its answers are not
  determined by the program, so the connection is a record of functions over an
  arbitrary world \<open>'w\<close>: each call returns a value or throws, and changes the world.
  \<^verbatim>\<open>sim.value.err\<close> and \<^verbatim>\<open>conf.value.err\<close> are \<open>None\<close> for \<^verbatim>\<open>null\<close>.
\<close>

type_synonym bytes = "nat list"

type_synonym Instruction = bytes

record AccountInfo =
  acc_data :: bytes
  acc_owner :: PublicKey

record Transaction =
  instructions :: "Instruction list"
  recentBlockhash :: "string option"
  signed :: bool

record SimResult =
  sim_err :: "string option"
  sim_logs :: "string list option"

record ConfResult =
  conf_err :: "string option"

record TokenBalance =
  amount :: string
  uiAmountString :: string

record 'w Connection =
  getAccountInfo :: "PublicKey \<Rightarrow> 'w \<Rightarrow> (js_error + AccountInfo option) \<times> 'w"
  getMultipleAccountsInfo :: "PublicKey list \<Rightarrow> 'w \<Rightarrow> (js_error + AccountInfo option list) \<times> 'w"
  getLatestBlockhash :: "'w \<Rightarrow> (js_error + string) \<times> 'w"
  getTokenAccountBalance :: "PublicKey \<Rightarrow> 'w \<Rightarrow> (js_error + TokenBalance) \<times> 'w"
  simulateTransaction :: "Transaction \<Rightarrow> 'w \<Rightarrow> (js_error + SimResult) \<times> 'w"
  sendRawTransaction :: "bytes \<Rightarrow> 'w \<Rightarrow> (js_error + string) \<times> 'w"
  confirmTransaction :: "string \<Rightarrow> 'w \<Rightarrow> (js_error + ConfResult) \<times> 'w"

text \<open>
  What the executor does is recorded as a trace: every call to the connection (with
  the answer, for the calls that move a transaction forward), the local signing of a
  transaction, the one-second settle delay and the progress lines that
  \<^verbatim>\<open>execute\<close> and \<^verbatim>\<open>executeArb\<close> print.  The console output of the venue builders is
  not recorded.
\<close>

datatype logmsg =
    SkipDuplicateLine
  | OpportunityLine
  | DryRunLine
  | ExecutionFailedLine js_error
  | Leg1BuyLine dex
  | Leg1FailedLine
  | Leg1SigLine string
  | GotTokensLine string
  | NoTokensLine
  | Leg2SellLine dex
  | Leg2FailedLine
  | FallbackViaLine dex
  | FallbackSigLine string
  | Leg2SigLine string
  | ArbCompleteLine

datatype event =
    GetAccountInfo PublicKey
  | GetMultipleAccountsInfo "PublicKey list"
  | GetLatestBlockhash
  | GetTokenAccountBalance PublicKey
  | Sleep nat
  | SimulateTransaction Transaction "js_error + SimResult"
  | Sign Transaction
  | SendRawTransaction bytes "js_error + string"
  | ConfirmTransaction string "js_error + ConfResult"
  | Log logmsg

text \<open>
  The fields of the \<^verbatim>\<open>Executor\<close> object, together with the world behind its
  connection and the trace.
\<close>

record 'w Executor =
  world :: 'w
  trace :: "event list"
  executionCount :: nat
  totalProfit :: decimal
  lastExecution :: "(string \<times> int) option"

text \<open>
  An \<^verbatim>\<open>async\<close> method: from a state it returns a value (\<open>Inr\<close>) or throws (\<open>Inl\<close>),
  and leaves a new state.
\<close>

type_synonym ('w, 'a) io = "'w Executor \<Rightarrow> (js_error + 'a) \<times> 'w Executor"

definition ret :: "'a \<Rightarrow> ('w, 'a) io" where
  "ret a s = (Inr a, s)"

definition lift :: "js_error + 'a \<Rightarrow> ('w, 'a) io" where
  "lift r s = (r, s)"

definition bnd :: "('w, 'a) io \<Rightarrow> ('a \<Rightarrow> ('w, 'b) io) \<Rightarrow> ('w, 'b) io" where
  "bnd m f s = (case m s of (Inl e, s') \<Rightarrow> (Inl e, s') | (Inr a, s') \<Rightarrow> f a s')"

definition emit :: "event \<Rightarrow> ('w, unit) io" where
  "emit ev s = (Inr (), s\<lparr>trace := trace s @ [ev]\<rparr>)"

definition rpc :: "('w \<Rightarrow> (js_error + 'a) \<times> 'w) \<Rightarrow> ((js_error + 'a) \<Rightarrow> event) \<Rightarrow> ('w, 'a) io" where
  "rpc call ev s =
     (case call (world s) of (r, w') \<Rightarrow> (r, s\<lparr>world := w', trace := trace s @ [ev r]\<rparr>))"

text \<open>\<^verbatim>\<open>try { return await m } catch (error) { return h(error) }\<close>\<close>

definition try_catch :: "('w, 'a) io \<Rightarrow> (js_error \<Rightarrow> ('w, 'a) io) \<Rightarrow> ('w, 'a) io" where
  "try_catch m h s = (case m s of (Inl e, s') \<Rightarrow> h e s' | (Inr a, s') \<Rightarrow> (Inr a, s'))"

definition rpc_getAccountInfo :: "'w Connection \<Rightarrow> PublicKey \<Rightarrow> ('w, AccountInfo option) io" where
  "rpc_getAccountInfo conn k = rpc (getAccountInfo conn k) (\<lambda>_. GetAccountInfo k)"

definition rpc_getMultipleAccountsInfo ::
  "'w Connection \<Rightarrow> PublicKey list \<Rightarrow> ('w, AccountInfo option list) io" where
  "rpc_getMultipleAccountsInfo conn ks =
     rpc (getMultipleAccountsInfo conn ks) (\<lambda>_. GetMultipleAccountsInfo ks)"

definition rpc_getLatestBlockhash :: "'w Connection \<Rightarrow> ('w, string) io" where
  "rpc_getLatestBlockhash conn = rpc (getLatestBlockhash conn) (\<lambda>_. GetLatestBlockhash)"

definition rpc_getTokenAccountBalance :: "'w Connection \<Rightarrow> PublicKey \<Rightarrow> ('w, TokenBalance) io" where
  "rpc_getTokenAccountBalance conn k =
     rpc (getTokenAccountBalance conn k) (\<lambda>_. GetTokenAccountBalance k)"

definition rpc_simulateTransaction :: "'w Connection \<Rightarrow> Transaction \<Rightarrow> ('w, SimResult) io" where
  "rpc_simulateTransaction conn tx = rpc (simulateTransaction conn tx) (SimulateTransaction tx)"

definition rpc_sendRawTransaction :: "'w Connection \<Rightarrow> bytes \<Rightarrow> ('w, string) io" where
  "rpc_sendRawTransaction conn b = rpc (sendRawTransaction conn b) (SendRawTransaction b)"

definition rpc_confirmTransaction :: "'w Connection \<Rightarrow> string \<Rightarrow> ('w, ConfResult) io" where
  "rpc_confirmTransaction conn sig = rpc (confirmTransaction conn sig) (ConfirmTransaction sig)"

subsection \<open>Local computations that are not modelled byte by byte\<close>

text \<open>
  The builders decode account data at fixed offsets, derive program addresses and
  assemble instructions.  None of this touches the connection.  It is kept abstract,
  as a record of functions that may throw (\<^verbatim>\<open>new PublicKey\<close>, \<^verbatim>\<open>readBigUInt64LE\<close>,
  \<^verbatim>\<open>createProgramAddressSync\<close>, \<^verbatim>\<open>new BN\<close> and \<^verbatim>\<open>serialize\<close> can).  \<open>assemble\<close>
  receives the venue, the swap's arguments and every account the builder has read, in
  reading order.
\<close>

datatype venue = RaydiumAmmV4 | RaydiumCpmm | OrcaWhirlpool | PumpFunCurve | PumpSwapAmm

record Codec =
  wallet :: PublicKey
  SOL_MINT :: PublicKey
  ata :: "PublicKey \<Rightarrow> PublicKey \<Rightarrow> PublicKey"
  toFixed0 :: "decimal \<Rightarrow> string"
  raydiumMarketId :: "AccountInfo \<Rightarrow> js_error + PublicKey"
  cpmmDecode :: "AccountInfo \<Rightarrow> js_error + unit"
  orcaDecode :: "PoolInfo \<Rightarrow> PublicKey \<Rightarrow> AccountInfo \<Rightarrow>
                   js_error + (PublicKey list \<times> PublicKey \<times> PublicKey)"
  parsePumpSwapPool :: "PublicKey \<Rightarrow> bytes \<Rightarrow> js_error + (PublicKey \<times> PublicKey) option"
  assemble :: "venue \<Rightarrow> PublicKey \<Rightarrow> PublicKey \<Rightarrow> string \<Rightarrow> PoolInfo \<Rightarrow>
                 AccountInfo option list \<Rightarrow> js_error + Instruction list"
  serialize :: "Transaction \<Rightarrow> js_error + bytes"

subsection \<open>Simulate, sign, send, confirm\<close>

text \<open>
  \<^verbatim>\<open>
  private async sendAndConfirm(serialized) {
    const sig = await this.connection.sendRawTransaction(serialized, { skipPreflight: true });
    const conf = await this.connection.confirmTransaction(sig, 'confirmed');
    if (conf.value.err) { ...; return null; }
    return sig;
  }\<close>
\<close>

definition sendAndConfirm :: "'w Connection \<Rightarrow> bytes \<Rightarrow> ('w, string option) io" where
  "sendAndConfirm conn serialized =
     bnd (rpc_sendRawTransaction conn serialized) (\<lambda>sig.
     bnd (rpc_confirmTransaction conn sig) (\<lambda>conf.
       if conf_err conf \<noteq> None then ret None else ret (Some sig)))"

text \<open>
  The end of every venue builder, from the blockhash on:
  \<^verbatim>\<open>
    const { blockhash } = await this.connection.getLatestBlockhash();
    tx.recentBlockhash = blockhash;
    const sim = await this.connection.simulateTransaction(tx);
    if (sim.value.err) { ...; return null; }
    tx.sign(wallet);
    return this.sendAndConfirm(Buffer.from(tx.serialize()));\<close>
\<close>

definition simulateSignSend :: "'w Connection \<Rightarrow> Codec \<Rightarrow> Instruction list \<Rightarrow> ('w, string option) io" where
  "simulateSignSend conn cd ixs =
     bnd (rpc_getLatestBlockhash conn) (\<lambda>blockhash.
       (let tx = \<lparr>instructions = ixs, recentBlockhash = Some blockhash, signed = False\<rparr>
        in bnd (rpc_simulateTransaction conn tx) (\<lambda>sim.
             if sim_err sim \<noteq> None then ret None
             else (let tx' = tx\<lparr>signed := True\<rparr>
                   in bnd (emit (Sign tx')) (\<lambda>_.
                      bnd (lift (serialize cd tx')) (\<lambda>serialized.
                        sendAndConfirm conn serialized))))))"

subsection \<open>The five venue builders\<close>

text \<open>
  \<^verbatim>\<open>swapViaRaydiumRaw\<close>: pool account (absent: \<^verbatim>\<open>null\<close>), market account (absent:
  \<^verbatim>\<open>null\<close>), the two user token accounts, then the common end.
\<close>

definition swapViaRaydiumRaw ::
  "'w Connection \<Rightarrow> Codec \<Rightarrow> PublicKey \<Rightarrow> PublicKey \<Rightarrow> string \<Rightarrow> PoolInfo \<Rightarrow> ('w, string option) io" where
  "swapViaRaydiumRaw conn cd inMint outMint amt p =
     bnd (rpc_getAccountInfo conn (address p)) (\<lambda>poolAcct.
       case poolAcct of None \<Rightarrow> ret None
       | Some pa \<Rightarrow>
           bnd (lift (raydiumMarketId cd pa)) (\<lambda>marketId.
           bnd (rpc_getAccountInfo conn marketId) (\<lambda>marketAcct.
             case marketAcct of None \<Rightarrow> ret None
             | Some ma \<Rightarrow>
                 bnd (rpc_getAccountInfo conn (ata cd inMint (wallet cd))) (\<lambda>src.
                 bnd (rpc_getAccountInfo conn (ata cd outMint (wallet cd))) (\<lambda>dst.
                 bnd (lift (assemble cd RaydiumAmmV4 inMint outMint amt p
                              [Some pa, Some ma, src, dst])) (\<lambda>ixs.
                   simulateSignSend conn cd ixs))))))"

text \<open>
  \<^verbatim>\<open>swapViaCpmm\<close>: pool account (absent: \<^verbatim>\<open>null\<close>), the two mint accounts (for the
  token program), the two user token accounts, then the common end.
\<close>

definition swapViaCpmm ::
  "'w Connection \<Rightarrow> Codec \<Rightarrow> PublicKey \<Rightarrow> PublicKey \<Rightarrow> string \<Rightarrow> PoolInfo \<Rightarrow> ('w, string option) io" where
  "swapViaCpmm conn cd inMint outMint amt p =
     bnd (rpc_getAccountInfo conn (address p)) (\<lambda>poolAcct.
       case poolAcct of None \<Rightarrow> ret None
       | Some pa \<Rightarrow>
           bnd (lift (cpmmDecode cd pa)) (\<lambda>_.
           bnd (rpc_getAccountInfo conn inMint) (\<lambda>inputMintInfo.
           bnd (rpc_getAccountInfo conn outMint) (\<lambda>outputMintInfo.
           bnd (rpc_getAccountInfo conn (ata cd inMint (wallet cd))) (\<lambda>src.
           bnd (rpc_getAccountInfo conn (ata cd outMint (wallet cd))) (\<lambda>dst.
           bnd (lift (assemble cd RaydiumCpmm inMint outMint amt p
                        [Some pa, inputMintInfo, outputMintInfo, src, dst])) (\<lambda>ixs.
             simulateSignSend conn cd ixs)))))))"

text \<open>
  \<^verbatim>\<open>swapViaOrca\<close>: pool account (absent: \<^verbatim>\<open>null\<close>), the three tick arrays (one
  absent: \<^verbatim>\<open>null\<close>), the two user token accounts, then the common end.
\<close>

definition swapViaOrca ::
  "'w Connection \<Rightarrow> Codec \<Rightarrow> PublicKey \<Rightarrow> PublicKey \<Rightarrow> string \<Rightarrow> PoolInfo \<Rightarrow> ('w, string option) io" where
  "swapViaOrca conn cd inMint outMint amt p =
     bnd (rpc_getAccountInfo conn (address p)) (\<lambda>poolInfo.
       case poolInfo of None \<Rightarrow> ret None
       | Some pa \<Rightarrow>
           bnd (lift (orcaDecode cd p inMint pa)) (\<lambda>(tickArrays, tokenMintA, tokenMintB).
           bnd (rpc_getMultipleAccountsInfo conn tickArrays) (\<lambda>taInfos.
             if \<not> list_all (\<lambda>i. i \<noteq> None) taInfos then ret None
             else
               bnd (rpc_getAccountInfo conn (ata cd tokenMintA (wallet cd))) (\<lambda>a.
               bnd (rpc_getAccountInfo conn (ata cd tokenMintB (wallet cd))) (\<lambda>b.
               bnd (lift (assemble cd OrcaWhirlpool inMint outMint amt p
                            (Some pa # taInfos @ [a, b]))) (\<lambda>ixs.
                 simulateSignSend conn cd ixs))))))"

text \<open>\<^verbatim>\<open>swapViaPumpFun\<close>: the user's token account, then the common end.\<close>

definition swapViaPumpFun ::
  "'w Connection \<Rightarrow> Codec \<Rightarrow> PublicKey \<Rightarrow> PublicKey \<Rightarrow> string \<Rightarrow> PoolInfo \<Rightarrow> ('w, string option) io" where
  "swapViaPumpFun conn cd inMint outMint amt p =
     (let isBuy = (inMint = SOL_MINT cd);
          tokenMint = (if isBuy then outMint else inMint)
      in bnd (rpc_getAccountInfo conn (ata cd tokenMint (wallet cd))) (\<lambda>ataInfo.
         bnd (lift (assemble cd PumpFunCurve inMint outMint amt p [ataInfo])) (\<lambda>ixs.
           simulateSignSend conn cd ixs)))"

text \<open>
  \<^verbatim>\<open>swapViaPumpSwap\<close>: pool account (absent or not parsed: \<^verbatim>\<open>null\<close>), the two user
  token accounts, the two mint accounts, then the common end.
\<close>

definition swapViaPumpSwap ::
  "'w Connection \<Rightarrow> Codec \<Rightarrow> PublicKey \<Rightarrow> PublicKey \<Rightarrow> string \<Rightarrow> PoolInfo \<Rightarrow> ('w, string option) io" where
  "swapViaPumpSwap conn cd inMint outMint amt p =
     bnd (rpc_getAccountInfo conn (address p)) (\<lambda>poolInfo.
       case poolInfo of None \<Rightarrow> ret None
       | Some pa \<Rightarrow>
           bnd (lift (parsePumpSwapPool cd (address p) (acc_data pa))) (\<lambda>poolData.
             case poolData of None \<Rightarrow> ret None
             | Some (baseMint, quoteMint) \<Rightarrow>
                 bnd (rpc_getAccountInfo conn (ata cd baseMint (wallet cd))) (\<lambda>ub.
                 bnd (rpc_getAccountInfo conn (ata cd quoteMint (wallet cd))) (\<lambda>uq.
                 bnd (rpc_getAccountInfo conn baseMint) (\<lambda>baseMintInfo.
                 bnd (rpc_getAccountInfo conn quoteMint) (\<lambda>quoteMintInfo.
                 bnd (lift (assemble cd PumpSwapAmm inMint outMint amt p
                              [Some pa, ub, uq, baseMintInfo, quoteMintInfo])) (\<lambda>ixs.
                   simulateSignSend conn cd ixs)))))))"

text \<open>
  \<^verbatim>\<open>executeBuyLeg\<close> and \<^verbatim>\<open>executeSellLeg\<close> choose the builder by \<^verbatim>\<open>pool.dex\<close> and
  \<^verbatim>\<open>pool.poolType\<close>; the final \<^verbatim>\<open>return null\<close> is unreachable for the four values
  of \<^verbatim>\<open>dex\<close>.
\<close>

definition swapVia ::
  "'w Connection \<Rightarrow> Codec \<Rightarrow> PublicKey \<Rightarrow> PublicKey \<Rightarrow> string \<Rightarrow> PoolInfo \<Rightarrow> ('w, string option) io" where
  "swapVia conn cd inMint outMint amt p =
     (if dex p = orca then swapViaOrca conn cd inMint outMint amt p
      else if dex p = pumpfun then swapViaPumpFun conn cd inMint outMint amt p
      else if dex p = pumpswap then swapViaPumpSwap conn cd inMint outMint amt p
      else if dex p = raydium \<and> poolType p = cpmm then swapViaCpmm conn cd inMint outMint amt p
      else if dex p = raydium then swapViaRaydiumRaw conn cd inMint outMint amt p
      else ret None)"

definition executeBuyLeg ::
  "'w Connection \<Rightarrow> Codec \<Rightarrow> PublicKey \<Rightarrow> string \<Rightarrow> PoolInfo \<Rightarrow> ('w, string option) io" where
  "executeBuyLeg conn cd tokenMint amt p = swapVia conn cd (SOL_MINT cd) tokenMint amt p"

definition executeSellLeg ::
  "'w Connection \<Rightarrow> Codec \<Rightarrow> PublicKey \<Rightarrow> string \<Rightarrow> PoolInfo \<Rightarrow> ('w, string option) io" where
  "executeSellLeg conn cd tokenMint amt p = swapVia conn cd tokenMint (SOL_MINT cd) amt p"

subsection \<open>Two-leg execution and the entry point\<close>

datatype arb_type = spatial | temporal | triangular

definition type_string :: "arb_type \<Rightarrow> string" where
  "type_string t = (case t of spatial \<Rightarrow> ''spatial'' | temporal \<Rightarrow> ''temporal''
                    | triangular \<Rightarrow> ''triangular'')"

record ArbOpportunity =
  type :: arb_type
  buyPool :: PoolInfo
  sellPool :: PoolInfo
  tokenMint :: PublicKey
  opp_inputAmount :: decimal
  expectedProfit :: decimal
  profitBps :: int
  timestamp :: int

record Config =
  dryRun :: bool
  slippageBps :: int

text \<open>\<^verbatim>\<open>!sig\<close> for a \<^verbatim>\<open>string | null\<close>: \<^verbatim>\<open>null\<close> and the empty string are falsy.\<close>

definition falsy :: "string option \<Rightarrow> bool" where
  "falsy sig = (case sig of None \<Rightarrow> True | Some str \<Rightarrow> str = [])"

text \<open>
  \<^verbatim>\<open>parseInt\<close> on the \<^verbatim>\<open>amount\<close> of a token balance, which the node returns as a
  string of decimal digits: the value of the leading digits, \<open>None\<close> (\<^verbatim>\<open>NaN\<close>) when
  there is none.
\<close>

definition digit_value :: "char \<Rightarrow> nat option" where
  "digit_value c =
     (let code = (of_char c :: nat)
      in if 48 \<le> code \<and> code \<le> 57 then Some (code - 48) else None)"

definition parseInt :: "string \<Rightarrow> nat option" where
  "parseInt str =
     (let ds = takeWhile (\<lambda>c. digit_value c \<noteq> None) str
      in if ds = [] then None
         else Some (foldl (\<lambda>a c. 10 * a + the (digit_value c)) 0 ds))"

definition modify :: "('w Executor \<Rightarrow> 'w Executor) \<Rightarrow> ('w, unit) io" where
  "modify f s = (Inr (), f s)"

text \<open>\<^verbatim>\<open>this.executionCount++; this.totalProfit = this.totalProfit.add(expectedProfit)\<close>\<close>

definition recordExecution :: "decimal \<Rightarrow> 'w Executor \<Rightarrow> 'w Executor" where
  "recordExecution profit s =
     s\<lparr>executionCount := executionCount s + 1, totalProfit := dadd (totalProfit s) profit\<rparr>"

text \<open>
  The fallback after a failed second leg:
  \<^verbatim>\<open>
      const tokenBal2 = await this.connection.getTokenAccountBalance(tokenAta);
      if (parseInt(tokenBal2.value.amount) > 0) {
        const otherPool = opp.sellPool !== opp.buyPool ? opp.buyPool : null;
        if (otherPool) {
          const fb = await this.executeSellLeg(tokenMint, tokenBal2.value.amount, otherPool);
          if (fb) console.log(`Fallback: ${fb}`);
        }
      }
      return false;\<close>
\<close>

definition fallback :: "'w Connection \<Rightarrow> Codec \<Rightarrow> ArbOpportunity \<Rightarrow> PublicKey \<Rightarrow> ('w, bool) io" where
  "fallback conn cd opp tokenAta =
     bnd (rpc_getTokenAccountBalance conn tokenAta) (\<lambda>tokenBal2.
     bnd (if (case parseInt (amount tokenBal2) of None \<Rightarrow> False | Some n \<Rightarrow> 0 < n) then
            (case (if oid (sellPool opp) \<noteq> oid (buyPool opp) then Some (buyPool opp) else None) of
               None \<Rightarrow> ret ()
             | Some otherPool \<Rightarrow>
                 bnd (emit (Log (FallbackViaLine (dex otherPool)))) (\<lambda>_.
                 bnd (executeSellLeg conn cd (tokenMint opp) (amount tokenBal2) otherPool) (\<lambda>fb.
                   if \<not> falsy fb then emit (Log (FallbackSigLine (the fb))) else ret ())))
          else ret ()) (\<lambda>_.
       ret False))"

text \<open>
  \<^verbatim>\<open>executeArb\<close>: leg 1 on the buy pool; a falsy signature ends with \<^verbatim>\<open>false\<close>.
  Then the settle delay, the token balance (zero: \<^verbatim>\<open>false\<close>), leg 2 on the sell
  pool; a falsy signature goes to the fallback, which always ends with \<^verbatim>\<open>false\<close>;
  otherwise the counters are updated and the result is \<^verbatim>\<open>true\<close>.
\<close>

definition executeArb :: "'w Connection \<Rightarrow> Codec \<Rightarrow> ArbOpportunity \<Rightarrow> ('w, bool) io" where
  "executeArb conn cd opp =
     (let solLamports = toFixed0 cd (opp_inputAmount opp);
          tokenAta = ata cd (tokenMint opp) (wallet cd)
      in bnd (emit (Log (Leg1BuyLine (dex (buyPool opp))))) (\<lambda>_.
         bnd (executeBuyLeg conn cd (tokenMint opp) solLamports (buyPool opp)) (\<lambda>sig1.
           if falsy sig1 then bnd (emit (Log Leg1FailedLine)) (\<lambda>_. ret False)
           else
             bnd (emit (Log (Leg1SigLine (the sig1)))) (\<lambda>_.
             bnd (emit (Sleep 1000)) (\<lambda>_.
             bnd (rpc_getTokenAccountBalance conn tokenAta) (\<lambda>tokenBal.
             bnd (emit (Log (GotTokensLine (uiAmountString tokenBal)))) (\<lambda>_.
               if parseInt (amount tokenBal) = Some 0
               then bnd (emit (Log NoTokensLine)) (\<lambda>_. ret False)
               else
                 bnd (emit (Log (Leg2SellLine (dex (sellPool opp))))) (\<lambda>_.
                 bnd (executeSellLeg conn cd (tokenMint opp) (amount tokenBal) (sellPool opp)) (\<lambda>sig2.
                   if falsy sig2
                   then bnd (emit (Log Leg2FailedLine)) (\<lambda>_.
                          fallback conn cd opp tokenAta)
                   else
                     bnd (emit (Log (Leg2SigLine (the sig2)))) (\<lambda>_.
                     bnd (emit (Log ArbCompleteLine)) (\<lambda>_.
                     bnd (modify (recordExecution (expectedProfit opp))) (\<lambda>_.
                       ret True))))))))))))"

text \<open>
  \<^verbatim>\<open>
  const dedupKey = `${buyPool.address.toBase58()}-${sellPool.address.toBase58()}-${type}`;\<close>
\<close>

definition dedupKey :: "ArbOpportunity \<Rightarrow> string" where
  "dedupKey opp =
     address (buyPool opp) @ ''-'' @ address (sellPool opp) @ ''-'' @ type_string (type opp)"

text \<open>
  \<^verbatim>\<open>
    if (this.lastExecution && this.lastExecution.key === dedupKey
        && now - this.lastExecution.timestamp < 30_000) { ...; return false; }\<close>
\<close>

definition isDuplicate :: "'w Executor \<Rightarrow> int \<Rightarrow> ArbOpportunity \<Rightarrow> bool" where
  "isDuplicate s now opp =
     (case lastExecution s of None \<Rightarrow> False
      | Some (key, ts) \<Rightarrow> key = dedupKey opp \<and> now - ts < 30000)"

text \<open>
  \<^verbatim>\<open>execute\<close>; \<open>now\<close> is the value of \<^verbatim>\<open>Date.now()\<close> at the call.  Only
  \<^verbatim>\<open>executeArb\<close> is inside the \<^verbatim>\<open>try\<close>.
\<close>

definition execute ::
  "'w Connection \<Rightarrow> Codec \<Rightarrow> Config \<Rightarrow> int \<Rightarrow> ArbOpportunity \<Rightarrow> ('w, bool) io" where
  "execute conn cd config now opp s =
     (if isDuplicate s now opp then
        bnd (emit (Log SkipDuplicateLine)) (\<lambda>_. ret False) s
      else
        bnd (modify (\<lambda>s. s\<lparr>lastExecution := Some (dedupKey opp, now)\<rparr>)) (\<lambda>_.
        bnd (emit (Log OpportunityLine)) (\<lambda>_.
          if dryRun config then
            bnd (emit (Log DryRunLine)) (\<lambda>_.
            bnd (modify (recordExecution (expectedProfit opp))) (\<lambda>_.
              ret True))
          else
            try_catch (executeArb conn cd opp) (\<lambda>error.
              bnd (emit (Log (ExecutionFailedLine error))) (\<lambda>_. ret False)))) s)"

subsection \<open>Shapes of traces\<close>

text \<open>The calls that only read chain state.\<close>

fun is_read :: "event \<Rightarrow> bool" where
  "is_read (GetAccountInfo k) = True"
| "is_read (GetMultipleAccountsInfo ks) = True"
| "is_read GetLatestBlockhash = True"
| "is_read ev = False"

text \<open>
  What may follow the signing of the transaction \<open>tx\<close>, with the value \<open>r\<close> the builder
  then returns or throws: nothing more when \<^verbatim>\<open>serialize\<close> throws; one submission of the
  serialised bytes; and after an accepted submission one confirmation of its signature,
  where a confirmation error gives \<^verbatim>\<open>null\<close>.
\<close>

fun after_sign :: "Codec \<Rightarrow> Transaction \<Rightarrow> js_error + string option \<Rightarrow> event list \<Rightarrow> bool" where
  "after_sign cd tx r [] = (case serialize cd tx of Inl e \<Rightarrow> r = Inl e | Inr b \<Rightarrow> False)"
| "after_sign cd tx r [SendRawTransaction b (Inl e)] = (serialize cd tx = Inr b \<and> r = Inl e)"
| "after_sign cd tx r [SendRawTransaction b (Inr sig), ConfirmTransaction sig' (Inl e)] =
     (serialize cd tx = Inr b \<and> sig' = sig \<and> r = Inl e)"
| "after_sign cd tx r [SendRawTransaction b (Inr sig), ConfirmTransaction sig' (Inr conf)] =
     (serialize cd tx = Inr b \<and> sig' = sig \<and>
      r = Inr (if conf_err conf = None then Some sig else None))"
| "after_sign cd tx r evs = False"



text \<open>
  A run of \<open>m\<close> from \<open>s\<close> keeps the old trace and appends events of shape \<open>P\<close>, where
  \<open>P\<close> also sees the result.
\<close>

definition appends :: "('w, 'a) io \<Rightarrow> ((js_error + 'a) \<Rightarrow> event list \<Rightarrow> bool) \<Rightarrow> 'w Executor \<Rightarrow> bool" where
  "appends m P s =
     (case m s of (r, s') \<Rightarrow>
        take (length (trace s)) (trace s') = trace s \<and> P r (drop (length (trace s)) (trace s')))"


definition reads_only :: "('w, 'a) io \<Rightarrow> bool" where
  "reads_only m = (\<forall>s. appends m (\<lambda>r evs. list_all is_read evs) s)"

text \<open>The printed lines of a trace, and the number of simulated transactions.\<close>

definition logs :: "event list \<Rightarrow> logmsg list" where
  "logs evs = List.map_filter (\<lambda>ev. case ev of Log m \<Rightarrow> Some m | _ \<Rightarrow> None) evs"

definition sims :: "event list \<Rightarrow> nat" where
  "sims evs = length (filter (\<lambda>ev. case ev of SimulateTransaction tx r \<Rightarrow> True | _ \<Rightarrow> False) evs)"

definition sends :: "event list \<Rightarrow> nat" where
  "sends evs = length (filter (\<lambda>ev. case ev of SendRawTransaction b r \<Rightarrow> True | _ \<Rightarrow> False) evs)"

subsection \<open>The two-leg state machine that \<^verbatim>\<open>executeArb\<close> implements\<close>

text \<open>
  The states of the spec's machine, with the three that the code adds: \<open>Settled\<close>
  (balance read after leg 1), \<open>NoTokens\<close> (that balance was zero) and \<open>Leg2Done\<close>.
  The lines that \<^verbatim>\<open>executeArb\<close> prints are the machine's input: each line is printed
  exactly when the code takes the corresponding branch.
\<close>

datatype arb_state =
    Idle | Leg1Pending | Leg1Failed | Leg1Done | Settled | NoTokens
  | Leg2Pending | Leg2Done | Done | Leg2Failed | FallbackPending | FallbackDone

definition step :: "ArbOpportunity \<Rightarrow> arb_state \<Rightarrow> logmsg \<Rightarrow> arb_state option" where
  "step opp st m =
     (case st of
        Idle \<Rightarrow> (case m of Leg1BuyLine d \<Rightarrow>
                    if d = dex (buyPool opp) then Some Leg1Pending else None | _ \<Rightarrow> None)
      | Leg1Pending \<Rightarrow> (case m of Leg1FailedLine \<Rightarrow> Some Leg1Failed
                    | Leg1SigLine sig \<Rightarrow> Some Leg1Done | _ \<Rightarrow> None)
      | Leg1Done \<Rightarrow> (case m of GotTokensLine ui \<Rightarrow> Some Settled | _ \<Rightarrow> None)
      | Settled \<Rightarrow> (case m of NoTokensLine \<Rightarrow> Some NoTokens
                    | Leg2SellLine d \<Rightarrow>
                        if d = dex (sellPool opp) then Some Leg2Pending else None
                    | _ \<Rightarrow> None)
      | Leg2Pending \<Rightarrow> (case m of Leg2SigLine sig \<Rightarrow> Some Leg2Done
                    | Leg2FailedLine \<Rightarrow> Some Leg2Failed | _ \<Rightarrow> None)
      | Leg2Done \<Rightarrow> (case m of ArbCompleteLine \<Rightarrow> Some Done | _ \<Rightarrow> None)
      | Leg2Failed \<Rightarrow> (case m of FallbackViaLine d \<Rightarrow>
                    if d = dex (buyPool opp) \<and> oid (sellPool opp) \<noteq> oid (buyPool opp)
                    then Some FallbackPending else None | _ \<Rightarrow> None)
      | FallbackPending \<Rightarrow> (case m of FallbackSigLine sig \<Rightarrow> Some FallbackDone
                    | _ \<Rightarrow> None)
      | _ \<Rightarrow> None)"

fun run :: "ArbOpportunity \<Rightarrow> arb_state \<Rightarrow> logmsg list \<Rightarrow> arb_state option" where
  "run opp st [] = Some st"
| "run opp st (m # ms) = (case step opp st m of None \<Rightarrow> None | Some st' \<Rightarrow> run opp st' ms)"

definition is_thrown :: "js_error + 'a \<Rightarrow> bool" where
  "is_thrown r = (case r of Inl e \<Rightarrow> True | Inr a \<Rightarrow> False)"

text \<open>
  The result of \<^verbatim>\<open>executeArb\<close> in the state where it stops: \<^verbatim>\<open>true\<close> only in
  \<open>Done\<close>; \<^verbatim>\<open>false\<close> after a failed leg 1, a zero balance, and after a failed leg 2
  whatever the fallback did; a pending state is left only by an exception.
\<close>

fun result_ok :: "arb_state \<Rightarrow> js_error + bool \<Rightarrow> bool" where
  "result_ok Done r = (r = Inr True)"
| "result_ok Leg1Failed r = (r = Inr False)"
| "result_ok NoTokens r = (r = Inr False)"
| "result_ok FallbackDone r = (r = Inr False)"
| "result_ok Leg2Failed r = (r = Inr False \<or> is_thrown r)"
| "result_ok FallbackPending r = (r = Inr False \<or> is_thrown r)"
| "result_ok Leg1Pending r = is_thrown r"
| "result_ok Leg1Done r = is_thrown r"
| "result_ok Leg2Pending r = is_thrown r"
| "result_ok st r = False"

text \<open>The legs started: one per line that announces a leg.\<close>

definition legs :: "logmsg list \<Rightarrow> nat" where
  "legs ms = length (filter (\<lambda>m. case m of Leg1BuyLine d \<Rightarrow> True | Leg2SellLine d \<Rightarrow> True
                                  | FallbackViaLine d \<Rightarrow> True | _ \<Rightarrow> False) ms)"

definition arb_trace :: "ArbOpportunity \<Rightarrow> js_error + bool \<Rightarrow> event list \<Rightarrow> bool" where
  "arb_trace opp r evs =
     ((case run opp Idle (logs evs) of None \<Rightarrow> False | Some st \<Rightarrow> result_ok st r) \<and>
      sims evs \<le> legs (logs evs) \<and> sends evs \<le> sims evs)"



section \<open>Concrete inputs\<close>

text \<open>A bonding curve at the initial virtual reserves of a pump.fun launch.\<close>

definition pump_curve :: BondingCurveData where
  "pump_curve = \<lparr>virtualTokenReserves = 1073000000000000, virtualSolReserves = 30000000000,
     realTokenReserves = 793100000000000, realSolReserves = 1000000000,
     tokenTotalSupply = 1000000000000000, complete = False\<rparr>"


text \<open>
  A connection whose world counts the simulations so far: every account exists, the
  token balance is \<open>1000\<close>, the simulations whose index is in \<open>failing\<close> report an
  error, every submission and confirmation succeeds.
\<close>

definition an_account :: AccountInfo where
  "an_account = \<lparr>acc_data = [], acc_owner = ''TokenkegQfeZyiNwAJbNbGKPFXCWuBvf9Ss623VQ5DA''\<rparr>"

definition scripted_conn :: "nat list \<Rightarrow> nat Connection" where
  "scripted_conn failing =
     \<lparr>getAccountInfo = (\<lambda>k w. (Inr (Some an_account), w)),
      getMultipleAccountsInfo = (\<lambda>ks w. (Inr (map (\<lambda>k. Some an_account) ks), w)),
      getLatestBlockhash = (\<lambda>w. (Inr ''blockhash'', w)),
      getTokenAccountBalance = (\<lambda>k w. (Inr \<lparr>amount = ''1000'', uiAmountString = ''0.001''\<rparr>, w)),
      simulateTransaction = (\<lambda>tx w.
         (Inr \<lparr>sim_err = (if w \<in> set failing then Some ''InstructionError'' else None),
               sim_logs = None\<rparr>, Suc w)),
      sendRawTransaction = (\<lambda>b w. (Inr ''signature'', w)),
      confirmTransaction = (\<lambda>sig w. (Inr \<lparr>conf_err = None\<rparr>, w))\<rparr>"

text \<open>The same connection with a node that rejects every simulation request.\<close>

definition throwing_conn :: "nat Connection" where
  "throwing_conn =
     (scripted_conn [])\<lparr>simulateTransaction := (\<lambda>tx w. (Inl (Error ''429 Too Many Requests''), w))\<rparr>"

definition a_codec :: Codec where
  "a_codec =
     \<lparr>wallet = ''wallet'',
      SOL_MINT = ''So11111111111111111111111111111111111111112'',
      ata = (\<lambda>mint owner. mint @ ''/'' @ owner),
      toFixed0 = (\<lambda>d. ''500000000''),
      raydiumMarketId = (\<lambda>a. Inr ''market''),
      cpmmDecode = (\<lambda>a. Inr ()),
      orcaDecode = (\<lambda>p m a. Inr ([''ta0'', ''ta1'', ''ta2''], ''mintA'', ''mintB'')),
      parsePumpSwapPool = (\<lambda>k d. Inr (Some (''base'', ''quote''))),
      assemble = (\<lambda>v i t a p accs. Inr [[9]]),
      serialize = (\<lambda>tx. Inr [1, 2, 3])\<rparr>"

definition a_pool :: "nat \<Rightarrow> PublicKey \<Rightarrow> dex \<Rightarrow> poolType \<Rightarrow> PoolInfo" where
  "a_pool i addr d t =
     \<lparr>oid = i, address = addr, dex = d, poolType = t,
      tokenA = ''So11111111111111111111111111111111111111112'', tokenB = ''mint'',
      reserveA = Fin 100000000000, reserveB = Fin 1000000000000000486, fee = 25,
      lastUpdate = 0, decimalsA = Some 9, decimalsB = Some 6,
      sqrtPriceX64 = None, orcaApiPrice = None\<rparr>"

definition an_opportunity :: ArbOpportunity where
  "an_opportunity =
     \<lparr>type = spatial,
      buyPool = a_pool 0 ''poolA'' raydium amm_v4,
      sellPool = a_pool 1 ''poolB'' pumpfun bonding_curve,
      tokenMint = ''mint'', opp_inputAmount = Fin 500000000,
      expectedProfit = Fin 1000000, profitBps = 20, timestamp = 0\<rparr>"

definition fresh :: "nat Executor" where
  "fresh = \<lparr>world = 0, trace = [], executionCount = 0, totalProfit = Fin 0,
            lastExecution = None\<rparr>"

text \<open>The mint of wrapped SOL.\<close>

definition SOL :: PublicKey where
  "SOL = ''So11111111111111111111111111111111111111112''"


definition drained_pool :: PoolInfo where
  "drained_pool = (a_pool 4 ''poolD'' raydium amm_v4)\<lparr>reserveA := Fin 1000, reserveB := Fin 0\<rparr>"


section \<open>Rounding to twenty significant digits\<close>

lemma ndigits_pos: "0 < ndigits n"
  by (induction n rule: ndigits.induct) (subst ndigits.simps, auto)

lemma ndigits_bounds:
  "0 < n \<Longrightarrow> 10 ^ nat (ndigits n - 1) \<le> n \<and> n < 10 ^ nat (ndigits n)"
proof (induction n rule: ndigits.induct)
  case (1 n)
  show ?case
  proof (cases "n < 10")
    case True
    then have "ndigits n = 1" by (subst ndigits.simps) simp
    with True "1.prems" show ?thesis by simp
  next
    case False
    let ?m = "n div 10"
    have m: "0 < ?m" using False by simp
    have nd: "ndigits n = 1 + ndigits ?m" using False by (subst ndigits.simps) simp
    from "1.IH" [OF False m] have lo: "10 ^ nat (ndigits ?m - 1) \<le> ?m"
      and hi: "?m < 10 ^ nat (ndigits ?m)" by simp_all
    have p: "0 < ndigits ?m" by (rule ndigits_pos)
    have e1: "nat (ndigits n - 1) = Suc (nat (ndigits ?m - 1))" using nd p by simp
    have e2: "nat (ndigits n) = Suc (nat (ndigits ?m))" using nd p by simp
    have "10 * ?m \<le> n" by simp
    with lo have l: "10 ^ nat (ndigits n - 1) \<le> n" unfolding e1 by simp
    from hi have "?m + 1 \<le> 10 ^ nat (ndigits ?m)" by simp
    then have "10 * (?m + 1) \<le> 10 ^ nat (ndigits n)" unfolding e2 by simp
    moreover have "n < 10 * (?m + 1)" by simp
    ultimately have "n < 10 ^ nat (ndigits n)" by linarith
    with l show ?thesis by simp
  qed
qed

lemma pow10_pos: "0 < pow10 k"
  by (simp add: pow10_def)

lemma pow10_powi: "pow10 k = 10 powi k"
  by (simp add: pow10_def power_int_def inverse_eq_divide power_one_over)

lemma pow10_add: "pow10 (a + b) = pow10 a * pow10 b"
  by (simp add: pow10_powi power_int_add)

lemma pow10_nat: "pow10 (int n) = 10 ^ n"
  by (simp add: pow10_def)

lemma dexp_lower:
  assumes "0 < x"
  shows "pow10 (dexp x) \<le> x"
proof (cases "1 \<le> x")
  case True
  let ?n = "\<lfloor>x\<rfloor>"
  have n: "0 < ?n" using True by simp
  from ndigits_bounds [OF n] have "10 ^ nat (ndigits ?n - 1) \<le> ?n" by simp
  then have "(of_int (10 ^ nat (ndigits ?n - 1)) :: rat) \<le> of_int ?n" by (simp only: of_int_le_iff)
  also have "\<dots> \<le> x" by simp
  finally have "(10 :: rat) ^ nat (ndigits ?n - 1) \<le> x" by simp
  moreover have "0 \<le> ndigits ?n - 1" using ndigits_pos [of ?n] by simp
  ultimately show ?thesis using True by (simp add: dexp_def pow10_def)
next
  case False
  let ?y = "1 / x"
  let ?k = "ndigits \<lfloor>?y\<rfloor>"
  have y: "1 < ?y" using False assms by simp
  then have n: "0 < \<lfloor>?y\<rfloor>" by simp
  show ?thesis
  proof (cases "x = pow10 (1 - ?k)")
    case True
    then have "dexp x = 1 - ?k" using False by (simp add: dexp_def Let_def)
    with True show ?thesis by simp
  next
    case ne: False
    then have d: "dexp x = - ?k" using False by (simp add: dexp_def Let_def)
    from ndigits_bounds [OF n] have "\<lfloor>?y\<rfloor> < 10 ^ nat ?k" by simp
    then have "\<lfloor>?y\<rfloor> + 1 \<le> 10 ^ nat ?k" by simp
    then have "(of_int (\<lfloor>?y\<rfloor> + 1) :: rat) \<le> of_int (10 ^ nat ?k)" by (simp only: of_int_le_iff)
    moreover have "?y < of_int (\<lfloor>?y\<rfloor> + 1)" by linarith
    ultimately have "?y < 10 ^ nat ?k" by simp
    then have "1 / 10 ^ nat ?k < x" using assms
      by (simp add: field_simps)
    moreover have "pow10 (- ?k) = 1 / 10 ^ nat ?k"
      using ndigits_pos [of "\<lfloor>?y\<rfloor>"] by (simp add: pow10_def)
    ultimately show ?thesis using d by simp
  qed
qed

lemma finalise_0 [simp]: "finalise sd 0 = 0"
  by (simp add: finalise_def)

lemma finalise_minus: "finalise sd (- x) = - finalise sd x"
  by (simp add: finalise_def Let_def)

lemma finalise_error:
  assumes "0 < x"
  shows "\<bar>finalise precision x - x\<bar> \<le> x * eps"
proof -
  let ?u = "pow10 (dexp x - int precision + 1)"
  have u: "0 < ?u" by (rule pow10_pos)
  have ux: "?u * 10 ^ 19 \<le> x"
  proof -
    have "?u * 10 ^ 19 = pow10 (dexp x - 19) * pow10 19"
      by (simp add: precision_def pow10_def [of 19])
    also have "\<dots> = pow10 (dexp x)" by (simp flip: pow10_add)
    finally show ?thesis using dexp_lower [OF assms] by simp
  qed
  let ?q = "x / ?u + 1 / 2"
  have f: "finalise precision x = of_int \<lfloor>?q\<rfloor> * ?u"
    using assms by (simp add: finalise_def Let_def)
  have "of_int \<lfloor>?q\<rfloor> \<le> ?q" by simp
  then have "of_int \<lfloor>?q\<rfloor> * ?u \<le> ?q * ?u" using u by (simp only: mult_le_cancel_right_pos)
  also have "?q * ?u = x + ?u / 2" using u by (simp add: field_simps)
  finally have hi: "finalise precision x \<le> x + ?u / 2" using f by simp
  have "?q - 1 < of_int \<lfloor>?q\<rfloor>" by linarith
  then have "(?q - 1) * ?u < of_int \<lfloor>?q\<rfloor> * ?u" using u by (simp only: mult_less_cancel_right_pos)
  moreover have "(?q - 1) * ?u = x - ?u / 2" using u by (simp add: field_simps)
  ultimately have lo: "x - ?u / 2 < finalise precision x" using f by simp
  have "?u / 2 \<le> x * eps" using ux by (simp add: eps_def field_simps)
  with hi lo show ?thesis by (simp add: abs_le_iff)
qed

lemma fin_ub: "0 \<le> x \<Longrightarrow> finalise precision x \<le> x * (1 + eps)"
  using finalise_error [of x] by (cases "x = 0") (simp_all add: abs_le_iff algebra_simps)

lemma fin_lb: "0 \<le> x \<Longrightarrow> x * (1 - eps) \<le> finalise precision x"
  using finalise_error [of x] by (cases "x = 0") (simp_all add: abs_le_iff algebra_simps)

lemma fin_pos: "0 < x \<Longrightarrow> 0 < finalise precision x"
proof -
  assume x: "0 < x"
  have "0 < x * (1 - eps)" using x by (simp add: eps_def)
  with fin_lb [of x] x show ?thesis by simp
qed

lemma fin_nonneg: "0 \<le> x \<Longrightarrow> 0 \<le> finalise precision x"
  using fin_pos [of x] by (cases "x = 0") simp_all

subsection \<open>Consequences for the quote engine\<close>

lemma finalise_eq_0_iff: "finalise precision x = 0 \<longleftrightarrow> x = 0"
proof
  assume z: "finalise precision x = 0"
  show "x = 0"
  proof (rule ccontr)
    assume "x \<noteq> 0"
    then consider "0 < x" | "0 < - x" by linarith
    then show False
    proof cases
      case 1
      from fin_pos [OF 1] z show False by simp
    next
      case 2
      from fin_pos [OF 2] z show False by (simp add: finalise_minus)
    qed
  qed
qed simp




lemma getQuote_rates:
  "effectivePrice (getQuote p m a) =
     (if isZero a then Fin 0 else ddiv (outputAmount (getQuote p m a)) a)"
  "priceImpact (getQuote p m a) =
     (let reserveIn = (if tokenA p = m then reserveA p else reserveB p);
          reserveOut = (if tokenA p = m then reserveB p else reserveA p);
          idealRate = (if isZero reserveIn then Fin 0 else ddiv reserveOut reserveIn)
      in if isZero idealRate then Fin 0
         else dminus (Fin 1) (ddiv (effectivePrice (getQuote p m a)) idealRate))"
  by (simp_all add: getQuote_def Let_def)


subsection \<open>Upper bounds on a quote\<close>

lemma eps_bounds: "0 < eps" "eps < 1"
  by (simp_all add: eps_def)

lemma ub_mul:
  assumes "0 \<le> u" "u \<le> U" "0 \<le> v" "v \<le> V"
  shows "finalise precision (u * v) \<le> U * V * (1 + eps)"
proof -
  have "finalise precision (u * v) \<le> (u * v) * (1 + eps)"
    using assms by (intro fin_ub) simp
  also have "\<dots> \<le> (U * V) * (1 + eps)"
    using assms eps_bounds by (intro mult_right_mono mult_mono) simp_all
  finally show ?thesis .
qed

lemma ub_div:
  assumes "0 \<le> u" "u \<le> U" "0 < L" "L \<le> v"
  shows "finalise precision (u / v) \<le> (U / L) * (1 + eps)"
proof -
  have v: "0 < v" using assms by simp
  have "finalise precision (u / v) \<le> (u / v) * (1 + eps)"
    using assms v by (intro fin_ub) simp
  also have "\<dots> \<le> (U / L) * (1 + eps)"
  proof (rule mult_right_mono)
    show "u / v \<le> U / L" using assms v by (intro frac_le) simp_all
    show "0 \<le> 1 + eps" using eps_bounds by simp
  qed
  finally show ?thesis .
qed

lemma K_facts: "K\<^sup>2 * (9999 / 10000)\<^sup>2 < 1" "10 ^ 18 * K\<^sup>2 < 10 ^ 18 + 1"
  by code_simp+

lemma K_C: "K = (1 + eps)\<^sup>2 * C"
  by (simp add: K_def C_def power2_eq_square power4_eq_xxxx)

lemma C_ge: "1 + eps \<le> C"
proof -
  have "(1 + eps) * (1 - eps) \<le> (1 + eps)\<^sup>2"
    using eps_bounds by (simp add: power2_eq_square algebra_simps)
  then show ?thesis
    using eps_bounds by (simp add: C_def pos_le_divide_eq)
qed

lemma K_pos: "0 < K" "1 \<le> K"
proof -
  have c: "1 \<le> C" using C_ge eps_bounds by simp
  have "1 \<le> (1 + eps)\<^sup>2" using eps_bounds by (simp add: power2_eq_square algebra_simps)
  with c have "1 * 1 \<le> (1 + eps)\<^sup>2 * C" by (intro mult_mono) simp_all
  then show "1 \<le> K" by (simp add: K_C)
  then show "0 < K" by simp
qed

lemma fee_mult:
  assumes "0 \<le> f" "f \<le> 10000"
  shows "\<exists>m. ddiv (of_number (10000 - f)) (of_number 10000) = Fin m \<and> 0 \<le> m \<and>
             m \<le> (of_int (10000 - f) / 10000) * (1 + eps)"
proof -
  let ?mu = "(of_int (10000 - f) :: rat) / 10000"
  have mu: "0 \<le> ?mu" using assms by simp
  have "ddiv (of_number (10000 - f)) (of_number 10000) = Fin (finalise precision ?mu)"
    by (simp add: of_number_def)
  with fin_nonneg [OF mu] fin_ub [OF mu] show ?thesis by blast
qed

lemma eff_in:
  assumes "0 \<le> x" "0 \<le> m" "m \<le> mu * (1 + eps)"
  shows "\<exists>e. dmul (Fin x) (Fin m) = Fin e \<and> 0 \<le> e \<and> e \<le> x * mu * (1 + eps)\<^sup>2"
proof -
  have "0 \<le> x * m" using assms by simp
  from fin_nonneg [OF this] have e0: "0 \<le> finalise precision (x * m)" .
  have "finalise precision (x * m) \<le> x * (mu * (1 + eps)) * (1 + eps)"
    using assms by (intro ub_mul) simp_all
  then have "finalise precision (x * m) \<le> x * mu * (1 + eps)\<^sup>2"
    by (simp add: power2_eq_square algebra_simps)
  with e0 show ?thesis by simp
qed

lemma floor_Fin:
  assumes "0 \<le> q" "q \<le> B"
  shows "\<exists>y. dfloor (Fin q) = Fin (of_int y) \<and> 0 \<le> y \<and> of_int y \<le> B"
proof -
  have "0 \<le> \<lfloor>q\<rfloor>" using assms by simp
  moreover have "(of_int \<lfloor>q\<rfloor> :: rat) \<le> B" using assms of_int_floor_le [of q] by linarith
  ultimately show ?thesis by simp
qed

lemma cp_out:
  assumes "0 < a" "0 < b" "0 \<le> e"
  shows "\<exists>y. dfloor (ddiv (dmul (Fin e) (Fin b)) (dadd (Fin a) (Fin e))) = Fin (of_int y) \<and>
             0 \<le> y \<and> of_int y \<le> e * (b / a) * C"
proof -
  let ?n = "finalise precision (e * b)" and ?d = "finalise precision (a + e)"
  have eb: "0 \<le> e * b" using assms by simp
  have n0: "0 \<le> ?n" using eb by (rule fin_nonneg)
  have nU: "?n \<le> e * b * (1 + eps)" using eb by (rule fin_ub)
  have "a * (1 - eps) \<le> (a + e) * (1 - eps)"
    using assms eps_bounds by (intro mult_right_mono) simp_all
  also have "\<dots> \<le> ?d" using assms by (intro fin_lb) simp
  finally have dL: "a * (1 - eps) \<le> ?d" .
  have Lpos: "0 < a * (1 - eps)" using assms eps_bounds by simp
  then have dpos: "0 < ?d" using dL by simp
  have q0: "0 \<le> finalise precision (?n / ?d)"
    using n0 dpos by (intro fin_nonneg) simp
  have "finalise precision (?n / ?d) \<le> (e * b * (1 + eps)) / (a * (1 - eps)) * (1 + eps)"
    using n0 nU Lpos dL by (rule ub_div)
  also have "\<dots> = e * (b / a) * C"
    using assms eps_bounds by (simp add: C_def power2_eq_square)
  finally have qU: "finalise precision (?n / ?d) \<le> e * (b / a) * C" .
  have "ddiv (dmul (Fin e) (Fin b)) (dadd (Fin a) (Fin e)) = Fin (finalise precision (?n / ?d))"
    using dpos by simp
  with floor_Fin [OF q0 qU] show ?thesis by simp
qed

lemma price_fwd:
  assumes "0 < r" "0 \<le> e"
  shows "\<exists>y. dfloor (dmul (Fin e) (Fin r)) = Fin (of_int y) \<and> 0 \<le> y \<and>
             of_int y \<le> e * r * C"
proof -
  have er: "0 \<le> e * r" using assms by simp
  have q0: "0 \<le> finalise precision (e * r)" using er by (rule fin_nonneg)
  have "finalise precision (e * r) \<le> e * r * (1 + eps)" using er by (rule fin_ub)
  also have "\<dots> \<le> e * r * C" using er C_ge by (intro mult_left_mono) simp_all
  finally have qU: "finalise precision (e * r) \<le> e * r * C" .
  from floor_Fin [OF q0 qU] show ?thesis by simp
qed

lemma price_rev:
  assumes "0 < r" "0 \<le> e"
  shows "\<exists>y. dfloor (ddiv (Fin e) (Fin r)) = Fin (of_int y) \<and> 0 \<le> y \<and>
             of_int y \<le> e * (1 / r) * C"
proof -
  have er: "0 \<le> e / r" using assms by simp
  have q0: "0 \<le> finalise precision (e / r)" using er by (rule fin_nonneg)
  have "finalise precision (e / r) \<le> e / r * (1 + eps)" using er by (rule fin_ub)
  also have "\<dots> \<le> e / r * C" using er C_ge by (intro mult_left_mono) simp_all
  finally have qU: "finalise precision (e / r) \<le> e * (1 / r) * C" by simp
  have "ddiv (Fin e) (Fin r) = Fin (finalise precision (e / r))" using assms by simp
  with floor_Fin [OF q0 qU] show ?thesis by simp
qed

text \<open>From a bound on the leg in terms of the effective input to a bound in terms of the input.\<close>

lemma leg_bound:
  assumes e: "0 \<le> e" "e \<le> x * mu * (1 + eps)\<^sup>2"
    and y: "of_int y \<le> e * r * C" and r: "0 < r"
  shows "(of_int y :: rat) \<le> x * mu * r * K"
proof -
  have c: "0 \<le> r * C" using r C_ge eps_bounds by simp
  have "e * r * C = e * (r * C)" by simp
  also have "\<dots> \<le> (x * mu * (1 + eps)\<^sup>2) * (r * C)"
    using e c by (intro mult_right_mono) simp_all
  also have "\<dots> = x * mu * r * K" by (simp add: K_C)
  finally show ?thesis using y by simp
qed

lemma positive_Fin: "positive d \<Longrightarrow> \<exists>x. d = Fin x \<and> 0 < x"
  by (cases d) (simp_all add: positive_def)

lemma dpow_pos: "0 < b \<Longrightarrow> \<exists>v. dpow b n = Fin v \<and> 0 < v"
  by (simp add: dpow_def fin_pos)

lemma getQuote_out:
  "outputAmount (getQuote p m a) =
     (let feeMultiplier = ddiv (of_number (10000 - fee p)) (of_number 10000);
          effectiveIn = dmul a feeMultiplier
      in if (case orcaApiPrice p of None \<Rightarrow> False | Some pr \<Rightarrow> gt0 pr) then
           (let rawPrice = ddiv (dmul (the (orcaApiPrice p)) (dpow 10 (or9 (decimalsB p))))
                             (dpow 10 (or9 (decimalsA p)))
            in if tokenA p = m then dfloor (dmul effectiveIn rawPrice)
               else dfloor (ddiv effectiveIn rawPrice))
         else if (poolType p = whirlpool \<or> poolType p = clmm) \<and> sqrtPriceX64 p \<noteq> None then
           (let sqrtPrice = ddiv (the (sqrtPriceX64 p)) (dpow 2 64);
                price = dmul sqrtPrice sqrtPrice
            in if tokenA p = m then dfloor (dmul effectiveIn price)
               else dfloor (ddiv effectiveIn price))
         else if tokenA p = m
           then dfloor (ddiv (dmul effectiveIn (reserveB p)) (dadd (reserveA p) effectiveIn))
           else dfloor (ddiv (dmul effectiveIn (reserveA p)) (dadd (reserveB p) effectiveIn)))"
  by (simp add: getQuote_def getAmountOut_def Let_def)

lemma getQuote_out_cp:
  assumes "\<not> (case orcaApiPrice p of None \<Rightarrow> False | Some pr \<Rightarrow> gt0 pr)"
    and "\<not> ((poolType p = whirlpool \<or> poolType p = clmm) \<and> sqrtPriceX64 p \<noteq> None)"
  shows "outputAmount (getQuote p m a) =
     (let effectiveIn = dmul a (ddiv (of_number (10000 - fee p)) (of_number 10000))
      in if tokenA p = m
           then dfloor (ddiv (dmul effectiveIn (reserveB p)) (dadd (reserveA p) effectiveIn))
           else dfloor (ddiv (dmul effectiveIn (reserveA p)) (dadd (reserveB p) effectiveIn)))"
  unfolding getQuote_out Let_def using assms by (simp only: if_False)

lemma getQuote_outputMint:
  "outputMint (getQuote p m a) = (if tokenA p = m then tokenB p else tokenA p)"
  by (simp add: getQuote_def Let_def)

lemma quote_bound:
  assumes sp: "sound_pool p"
  shows "\<exists>r>0. \<forall>m x. 0 \<le> x \<longrightarrow>
           (\<exists>y. outputAmount (getQuote p m (Fin x)) = Fin (of_int y) \<and> 0 \<le> y \<and>
                of_int y \<le> x * (of_int (10000 - fee p) / 10000) *
                              (if tokenA p = m then r else 1 / r) * K)"
proof -
  let ?mu = "(of_int (10000 - fee p) :: rat) / 10000"
  from sp have f: "0 \<le> fee p" "fee p \<le> 10000" by (simp_all add: sound_pool_def)
  from fee_mult [OF f] obtain fm where
    fm: "ddiv (of_number (10000 - fee p)) (of_number 10000) = Fin fm"
    and fm0: "0 \<le> fm" and fmU: "fm \<le> ?mu * (1 + eps)" by blast
  from sp obtain a b where ab: "reserveA p = Fin a" "reserveB p = Fin b" "0 < a" "0 < b"
    by (auto simp: sound_pool_def dest!: positive_Fin)
  have main: "\<exists>y. outputAmount (getQuote p m (Fin x)) = Fin (of_int y) \<and> 0 \<le> y \<and>
                 of_int y \<le> x * ?mu * (if tokenA p = m then r else 1 / r) * K"
    if r: "0 < r" and x: "0 \<le> x"
      and out: "outputAmount (getQuote p m (Fin x)) =
                  (if tokenA p = m then dfloor (dmul (dmul (Fin x) (Fin fm)) (Fin r))
                   else dfloor (ddiv (dmul (Fin x) (Fin fm)) (Fin r))) \<or>
                outputAmount (getQuote p m (Fin x)) =
                  (if tokenA p = m
                   then dfloor (ddiv (dmul (dmul (Fin x) (Fin fm)) (Fin b))
                                  (dadd (Fin a) (dmul (Fin x) (Fin fm))))
                   else dfloor (ddiv (dmul (dmul (Fin x) (Fin fm)) (Fin a))
                                  (dadd (Fin b) (dmul (Fin x) (Fin fm))))) \<and> r = b / a"
    for m x r
  proof -
    from eff_in [OF x fm0 fmU] obtain e where
      e: "dmul (Fin x) (Fin fm) = Fin e" and e0: "0 \<le> e" and eU: "e \<le> x * ?mu * (1 + eps)\<^sup>2"
      by blast
    have rr: "0 < 1 / r" using r by simp
    from out show ?thesis
    proof
      assume o: "outputAmount (getQuote p m (Fin x)) =
                  (if tokenA p = m then dfloor (dmul (dmul (Fin x) (Fin fm)) (Fin r))
                   else dfloor (ddiv (dmul (Fin x) (Fin fm)) (Fin r)))"
      show ?thesis
      proof (cases "tokenA p = m")
        case True
        from price_fwd [OF r e0] obtain y where
          "dfloor (dmul (Fin e) (Fin r)) = Fin (of_int y)" "0 \<le> y" "of_int y \<le> e * r * C"
          by blast
        with leg_bound [OF e0 eU _ r, of y] o e True show ?thesis by auto
      next
        case False
        from price_rev [OF r e0] obtain y where
          "dfloor (ddiv (Fin e) (Fin r)) = Fin (of_int y)" "0 \<le> y" "of_int y \<le> e * (1 / r) * C"
          by blast
        with leg_bound [OF e0 eU _ rr, of y] o e False show ?thesis by auto
      qed
    next
      assume o: "outputAmount (getQuote p m (Fin x)) =
                  (if tokenA p = m
                   then dfloor (ddiv (dmul (dmul (Fin x) (Fin fm)) (Fin b))
                                  (dadd (Fin a) (dmul (Fin x) (Fin fm))))
                   else dfloor (ddiv (dmul (dmul (Fin x) (Fin fm)) (Fin a))
                                  (dadd (Fin b) (dmul (Fin x) (Fin fm))))) \<and> r = b / a"
      then have rdef: "r = b / a" by simp
      show ?thesis
      proof (cases "tokenA p = m")
        case True
        from cp_out [OF ab(3) ab(4) e0] obtain y where
          "dfloor (ddiv (dmul (Fin e) (Fin b)) (dadd (Fin a) (Fin e))) = Fin (of_int y)"
          "0 \<le> y" "of_int y \<le> e * r * C"
          unfolding rdef by blast
        with leg_bound [OF e0 eU _ r, of y] o e True show ?thesis by auto
      next
        case False
        have "1 / r = a / b" using rdef ab by simp
        with cp_out [OF ab(4) ab(3) e0] obtain y where
          "dfloor (ddiv (dmul (Fin e) (Fin a)) (dadd (Fin b) (Fin e))) = Fin (of_int y)"
          "0 \<le> y" "of_int y \<le> e * (1 / r) * C"
          by auto
        with leg_bound [OF e0 eU _ rr, of y] o e False show ?thesis by auto
      qed
    qed
  qed
  show ?thesis
  proof (cases "case orcaApiPrice p of None \<Rightarrow> False | Some pr \<Rightarrow> gt0 pr")
    case True
    then obtain pr where pr: "orcaApiPrice p = Some pr" "gt0 pr"
      by (auto split: option.splits)
    with sp have "pr \<noteq> PosInf" by (simp add: sound_pool_def)
    with pr obtain v where v: "pr = Fin v" "0 < v"
      by (cases pr) (simp_all add: gt0_def)
    from dpow_pos [of 10 "or9 (decimalsB p)"] obtain tb where
      tb: "dpow 10 (or9 (decimalsB p)) = Fin tb" "0 < tb" by auto
    from dpow_pos [of 10 "or9 (decimalsA p)"] obtain ta where
      ta: "dpow 10 (or9 (decimalsA p)) = Fin ta" "0 < ta" by auto
    let ?r = "finalise precision (finalise precision (v * tb) / ta)"
    have "0 < finalise precision (v * tb)" using v tb by (intro fin_pos) simp
    then have rp: "0 < ?r" using ta by (intro fin_pos) simp
    have raw: "ddiv (dmul (the (orcaApiPrice p)) (dpow 10 (or9 (decimalsB p))))
                 (dpow 10 (or9 (decimalsA p))) = Fin ?r"
      using pr v tb ta by simp
    have "\<forall>m x. 0 \<le> x \<longrightarrow>
           (\<exists>y. outputAmount (getQuote p m (Fin x)) = Fin (of_int y) \<and> 0 \<le> y \<and>
                of_int y \<le> x * ?mu * (if tokenA p = m then ?r else 1 / ?r) * K)"
    proof (intro allI impI)
      fix m and x :: rat assume x: "0 \<le> x"
      show "\<exists>y. outputAmount (getQuote p m (Fin x)) = Fin (of_int y) \<and> 0 \<le> y \<and>
                of_int y \<le> x * ?mu * (if tokenA p = m then ?r else 1 / ?r) * K"
        using True
        by (intro main [OF rp x]) (simp add: getQuote_out raw fm Let_def)
    qed
    with rp show ?thesis by blast
  next
    case noapi: False
    show ?thesis
    proof (cases "(poolType p = whirlpool \<or> poolType p = clmm) \<and> sqrtPriceX64 p \<noteq> None")
      case True
      then obtain sq where sq: "sqrtPriceX64 p = Some sq" by auto
      with sp have "positive sq" by (simp add: sound_pool_def)
      from positive_Fin [OF this] obtain s where s: "sq = Fin s" "0 < s" by blast
      from dpow_pos [of 2 64] obtain q64 where q64: "dpow 2 64 = Fin q64" "0 < q64" by auto
      let ?sp = "finalise precision (s / q64)"
      let ?r = "finalise precision (?sp * ?sp)"
      have spp: "0 < ?sp" using s q64 by (intro fin_pos) simp
      then have rp: "0 < ?r" by (intro fin_pos) simp
      have price: "dmul (ddiv (the (sqrtPriceX64 p)) (dpow 2 64))
                     (ddiv (the (sqrtPriceX64 p)) (dpow 2 64)) = Fin ?r"
        using sq s q64 by simp
      have "\<forall>m x. 0 \<le> x \<longrightarrow>
             (\<exists>y. outputAmount (getQuote p m (Fin x)) = Fin (of_int y) \<and> 0 \<le> y \<and>
                  of_int y \<le> x * ?mu * (if tokenA p = m then ?r else 1 / ?r) * K)"
      proof (intro allI impI)
        fix m and x :: rat assume x: "0 \<le> x"
        show "\<exists>y. outputAmount (getQuote p m (Fin x)) = Fin (of_int y) \<and> 0 \<le> y \<and>
                  of_int y \<le> x * ?mu * (if tokenA p = m then ?r else 1 / ?r) * K"
          using noapi True
          by (intro main [OF rp x]) (simp add: getQuote_out price fm Let_def)
      qed
      with rp show ?thesis by blast
    next
      case False
      let ?r = "b / a"
      have rp: "0 < ?r" using ab by simp
      have "\<forall>m x. 0 \<le> x \<longrightarrow>
             (\<exists>y. outputAmount (getQuote p m (Fin x)) = Fin (of_int y) \<and> 0 \<le> y \<and>
                  of_int y \<le> x * ?mu * (if tokenA p = m then ?r else 1 / ?r) * K)"
      proof (intro allI impI)
        fix m and x :: rat assume x: "0 \<le> x"
        show "\<exists>y. outputAmount (getQuote p m (Fin x)) = Fin (of_int y) \<and> 0 \<le> y \<and>
                  of_int y \<le> x * ?mu * (if tokenA p = m then ?r else 1 / ?r) * K"
          by (intro main [OF rp x])
             (simp add: getQuote_out_cp [OF noapi False] ab fm Let_def)
      qed
      with rp show ?thesis by blast
    qed
  qed
qed


section \<open>Properties of the bonding-curve quotes\<close>

lemma sdiv_nonneg: "0 \<le> a \<Longrightarrow> 0 < b \<Longrightarrow> a sdiv b = a div (b::int)"
  by (cases "a = 0") (simp_all add: signed_divide_int_def)

text \<open>
  C5, as stated, fails for the sell direction: \<^verbatim>\<open>getSellQuote\<close> does not reduce the
  input by the fee.  Selling \<open>10\<^sup>1\<^sup>2\<close> token units on the curve below returns
  \<open>27653631\<close> lamports, while the claimed formula with the fee taken from the input
  gives \<open>27653889\<close>.
\<close>

theorem C5_sell_fee_on_input_counterexample:
  "getSellQuote pump_curve 1000000000000 = Inr 27653631 \<and>
   virtualSolReserves pump_curve -
     (virtualTokenReserves pump_curve * virtualSolReserves pump_curve) div
       (virtualTokenReserves pump_curve + (1000000000000 * 99) div 100) = 27653889"
  by (simp add: pump_curve_def getSellQuote_def bigint_div_def Let_def signed_divide_int_def)

text \<open>
  C5, amended: for positive virtual reserves and a non-negative input, a buy quote
  takes the 1 % fee from the input before the virtual-reserve constant-product formula,
  \<open>out = virtualOut - (virtualIn \<sqdot> virtualOut) div (virtualIn + effIn)\<close> with
  \<open>effIn = (solIn \<sqdot> 99) div 100\<close>; a sell quote applies the formula to the whole input
  and takes the 1 % fee from the output.
\<close>

theorem C5_bonding_curve_quotes:
  assumes "0 < virtualTokenReserves curve" and "0 < virtualSolReserves curve" and "0 \<le> amt"
  shows "getBuyQuote curve amt =
           Inr (virtualTokenReserves curve -
                (virtualSolReserves curve * virtualTokenReserves curve) div
                  (virtualSolReserves curve + (amt * 99) div 100)) \<and>
         getSellQuote curve amt =
           Inr (((virtualSolReserves curve -
                  (virtualTokenReserves curve * virtualSolReserves curve) div
                     (virtualTokenReserves curve + amt)) * 99) div 100)"
proof -
  let ?T = "virtualTokenReserves curve" and ?S = "virtualSolReserves curve"
  have fee: "(amt * 99) sdiv 100 = (amt * 99) div 100"
    using assms(3) by (simp add: sdiv_nonneg)
  have eff: "0 \<le> (amt * 99) div 100"
    using assms(3) by (simp add: pos_imp_zdiv_nonneg_iff)
  have k: "0 \<le> ?T * ?S"
    using assms by simp
  have buy: "getBuyQuote curve amt = Inr (?T - (?S * ?T) div (?S + (amt * 99) div 100))"
    using assms eff k
    by (simp add: getBuyQuote_def bigint_div_def fee Let_def sdiv_nonneg mult.commute)
  have "(?T * ?S) div (?T + amt) \<le> (?T * ?S) div ?T"
    using assms by (intro zdiv_mono2) simp_all
  then have out: "0 \<le> ?S - (?T * ?S) div (?T + amt)"
    using assms by simp
  have sell: "getSellQuote curve amt = Inr (((?S - (?T * ?S) div (?T + amt)) * 99) div 100)"
    using assms k out
    by (simp add: getSellQuote_def bigint_div_def Let_def sdiv_nonneg)
  from buy sell show ?thesis by simp
qed

theorem C5_bonding_curve_quotes_witness:
  "getBuyQuote pump_curve 1000000000 = Inr 34277831558568 \<and>
   getSellQuote pump_curve 1000000000000 = Inr 27653631"
  using C5_bonding_curve_quotes [of pump_curve 1000000000]
        C5_bonding_curve_quotes [of pump_curve 1000000000000]
  by (simp add: pump_curve_def)

section \<open>Properties of the executor\<close>

subsection \<open>Traces of the venue builders\<close>




lemma reads_only_ret: "reads_only (ret a)"
  by (simp add: reads_only_def appends_def ret_def)




lemma reads_only_getLatestBlockhash: "reads_only (rpc_getLatestBlockhash conn)"
  by (simp add: reads_only_def appends_def rpc_getLatestBlockhash_def rpc_def split: prod.splits)



lemma leg_ok_sendAndConfirm:
  "serialize cd tx = Inr b \<Longrightarrow>
   appends (sendAndConfirm conn b) (\<lambda>r evs. after_sign cd tx r evs) s"
  by (auto simp: appends_def sendAndConfirm_def bnd_def rpc_sendRawTransaction_def
      rpc_confirmTransaction_def rpc_def ret_def split: prod.splits sum.splits)













lemma logs_Nil [simp]: "logs [] = []"
  by (simp add: logs_def List.map_filter_def)

lemma logs_Cons [simp]:
  "logs (ev # evs) = (case ev of Log m \<Rightarrow> [m] | _ \<Rightarrow> []) @ logs evs"
  by (cases ev) (simp_all add: logs_def List.map_filter_def)


lemma sims_Nil [simp]: "sims [] = 0"
  by (simp add: sims_def)

lemma sims_Cons [simp]:
  "sims (ev # evs) = (case ev of SimulateTransaction tx r \<Rightarrow> 1 | _ \<Rightarrow> 0) + sims evs"
  by (cases ev) (simp_all add: sims_def)


lemma sends_Nil [simp]: "sends [] = 0"
  by (simp add: sends_def)

lemma sends_Cons [simp]:
  "sends (ev # evs) = (case ev of SendRawTransaction b r \<Rightarrow> 1 | _ \<Rightarrow> 0) + sends evs"
  by (cases ev) (simp_all add: sends_def)







lemma arb_trace_intro:
  "run opp Idle (logs evs) = Some st \<Longrightarrow> result_ok st r \<Longrightarrow> sims evs \<le> legs (logs evs)
   \<Longrightarrow> sends evs \<le> sims evs \<Longrightarrow> arb_trace opp r evs"
  by (simp add: arb_trace_def)






subsection \<open>The duplicate key survives an execution\<close>















subsection \<open>Unfolding the executor on concrete inputs\<close>

lemmas exec_defs = executeArb_def fallback_def executeBuyLeg_def executeSellLeg_def swapVia_def
  swapViaRaydiumRaw_def swapViaCpmm_def swapViaOrca_def swapViaPumpFun_def swapViaPumpSwap_def
  simulateSignSend_def sendAndConfirm_def rpc_getAccountInfo_def rpc_getMultipleAccountsInfo_def
  rpc_getLatestBlockhash_def rpc_getTokenAccountBalance_def rpc_simulateTransaction_def
  rpc_sendRawTransaction_def rpc_confirmTransaction_def rpc_def bnd_def ret_def lift_def emit_def
  modify_def try_catch_def recordExecution_def falsy_def parseInt_def digit_value_def
  execute_def isDuplicate_def dedupKey_def type_string_def

lemmas demo_defs = scripted_conn_def throwing_conn_def a_codec_def a_pool_def an_opportunity_def
  fresh_def an_account_def


section \<open>The claims about the executor\<close>








text \<open>
  C10.  \<^verbatim>\<open>execute\<close> always returns a boolean and never throws: a duplicate gives
  \<^verbatim>\<open>false\<close>, a dry run \<^verbatim>\<open>true\<close>, and in live mode the result is that of
  \<^verbatim>\<open>executeArb\<close>, with \<^verbatim>\<open>false\<close> for every exception thrown inside it (by a
  connection call, a decoder, the assembly or the serialisation of either leg).
\<close>

theorem C10_execute_never_throws:
  "(\<exists>b. fst (execute conn cd config now opp s) = Inr b) \<and>
   fst (execute conn cd config now opp s) =
     (if isDuplicate s now opp then Inr False
      else if dryRun config then Inr True
      else (case fst (executeArb conn cd opp
                        (s\<lparr>lastExecution := Some (dedupKey opp, now),
                           trace := trace s @ [Log OpportunityLine]\<rparr>)) of
              Inl e \<Rightarrow> Inr False
            | Inr b \<Rightarrow> Inr b))"
  by (cases "executeArb conn cd opp (s\<lparr>lastExecution := Some (dedupKey opp, now),
        trace := trace s @ [Log OpportunityLine]\<rparr>)")
     (auto simp: execute_def bnd_def emit_def ret_def modify_def try_catch_def
       split: sum.splits prod.splits)

theorem C10_execute_never_throws_witness:
  "fst (executeArb throwing_conn a_codec an_opportunity
          (fresh\<lparr>lastExecution := Some (dedupKey an_opportunity, 1000),
                 trace := trace fresh @ [Log OpportunityLine]\<rparr>)) =
     Inl (Error ''429 Too Many Requests'') \<and>
   fst (execute throwing_conn a_codec \<lparr>dryRun = False, slippageBps = 100\<rparr> 1000
          an_opportunity fresh) = Inr False"
  using C10_execute_never_throws [of throwing_conn a_codec
      "\<lparr>dryRun = False, slippageBps = 100\<rparr>" 1000 an_opportunity fresh]
  by (simp add: exec_defs demo_defs Let_def)

section \<open>The claims about quotes\<close>

text \<open>
  The golden vector of the spec: at reserves \<open>10\<^sup>9\<close> and \<open>5 \<sqdot> 10\<^sup>1\<^sup>0\<close>, fee 25 bps and
  input \<open>10\<^sup>8\<close> both implementations return the value of the formula.
\<close>

lemma golden_vector:
  "getAmountOut (Fin 100000000) (Fin 1000000000) (Fin 50000000000) 25 = Fin 4535121618 \<and>
   RaydiumFetcher_getAmountOut (Fin 100000000) (Fin 1000000000) (Fin 50000000000) 25
     = Fin 4535121618 \<and>
   spec_amountOut 100000000 1000000000 50000000000 25 = 4535121618"
  by code_simp

text \<open>
  C1 does not hold of the code for every quote.  decimal.js rounds the product and the
  quotient to twenty significant digits before \<^verbatim>\<open>floor()\<close> is applied.  With the
  golden vector's input \<open>10\<^sup>8\<close> and fee 25 bps, at reserves \<open>10\<^sup>1\<^sup>1\<close> and
  \<open>1000000000000000486\<close> the exact quotient is \<open>996505985279683.999995\<dots>\<close>; rounded to
  twenty digits it is \<open>996505985279684.00000\<close>, so both implementations return one unit
  more than \<open>floor(effIn \<sqdot> reserveOut / (reserveIn + effIn))\<close>.
\<close>

theorem C1_floor_after_rounding:
  "getAmountOut (Fin 100000000) (Fin 100000000000) (Fin 1000000000000000486) 25
     = Fin 996505985279684 \<and>
   RaydiumFetcher_getAmountOut (Fin 100000000) (Fin 100000000000) (Fin 1000000000000000486) 25
     = Fin 996505985279684 \<and>
   spec_amountOut 100000000 100000000000 1000000000000000486 25 = 996505985279683"
  by code_simp




text \<open>
  C3 does not hold of the code, for the same reason as C1: the rounding to twenty
  digits.  With reserves \<open>1\<close> and \<open>11\<close>, no fee and the largest 64-bit input, the product
  \<open>11 \<sqdot> (2\<^sup>6\<^sup>4 - 1)\<close> is rounded up and the quotient \<open>10.99999999999999999967\<dots>\<close>
  becomes \<open>11\<close>: the output equals the whole reserve.  With reserves \<open>1\<close> and
  \<open>119290\<close> and 25 bps, one more unit of input lowers the output.
\<close>

theorem C3_bound_and_monotonicity_lost:
  "getAmountOut (Fin 18446744073709551615) (Fin 1) (Fin 11) 0 = Fin 11 \<and>
   getAmountOut (Fin 17638939027312621250) (Fin 1) (Fin 119290) 25 = Fin 119290 \<and>
   getAmountOut (Fin 17638939027312621251) (Fin 1) (Fin 119290) 25 = Fin 119289"
  by code_simp

text \<open>
  C6, as stated, fails where the ideal rate is defined but zero: with reserves
  \<open>1000\<close> in and \<open>0\<close> out the price impact is \<open>0\<close>, while
  \<open>1 - realizedRate / idealRate\<close> is \<open>1 - 0/0\<close>, not a number.
\<close>

theorem C6_zero_ideal_rate_counterexample:
  "priceImpact (getQuote drained_pool SOL (Fin 100)) = Fin 0 \<and>
   dminus (Fin 1)
     (ddiv (effectivePrice (getQuote drained_pool SOL (Fin 100)))
           (ddiv (reserveB drained_pool) (reserveA drained_pool))) = NaN"
  by code_simp

text \<open>
  C6, amended: for finite reserves, the effective price is \<open>output / input\<close> (\<open>0\<close> for
  a zero input), and the price impact is \<open>1 - realizedRate / idealRate\<close> with
  \<open>idealRate = reserveOut / reserveIn\<close> whenever both reserves are non-zero; it is \<open>0\<close>
  whenever \<open>reserveIn = 0\<close> (ideal rate undefined) or \<open>reserveOut = 0\<close> (ideal rate
  zero).  All three operations are those of \<^verbatim>\<open>Decimal\<close>, at twenty digits.
\<close>

theorem C6_price_impact:
  assumes "(if tokenA p = m then reserveA p else reserveB p) = Fin a"
    and "(if tokenA p = m then reserveB p else reserveA p) = Fin b"
  shows "effectivePrice (getQuote p m amt) =
           (if isZero amt then Fin 0 else ddiv (outputAmount (getQuote p m amt)) amt) \<and>
         priceImpact (getQuote p m amt) =
           (if a = 0 \<or> b = 0 then Fin 0
            else dminus (Fin 1) (ddiv (effectivePrice (getQuote p m amt)) (ddiv (Fin b) (Fin a))))"
proof -
  have z: "a \<noteq> 0 \<Longrightarrow> isZero (ddiv (Fin b) (Fin a)) \<longleftrightarrow> b = 0"
    by (simp add: isZero_def finalise_eq_0_iff)
  show ?thesis
  proof (cases "tokenA p = m")
    case True
    with assms have "reserveA p = Fin a" "reserveB p = Fin b" by simp_all
    then show ?thesis using True z
      by (cases "a = 0") (simp_all add: getQuote_rates Let_def isZero_def finalise_eq_0_iff)
  next
    case False
    with assms have "reserveB p = Fin a" "reserveA p = Fin b" by simp_all
    then show ?thesis using False z
      by (cases "a = 0") (simp_all add: getQuote_rates Let_def isZero_def finalise_eq_0_iff)
  qed
qed

theorem C6_price_impact_witness:
  "((if tokenA (a_pool 0 ''poolA'' raydium amm_v4) = SOL
     then reserveA (a_pool 0 ''poolA'' raydium amm_v4)
     else reserveB (a_pool 0 ''poolA'' raydium amm_v4)) = Fin 100000000000 \<and>
    (if tokenA (a_pool 0 ''poolA'' raydium amm_v4) = SOL
     then reserveB (a_pool 0 ''poolA'' raydium amm_v4)
     else reserveA (a_pool 0 ''poolA'' raydium amm_v4)) = Fin 1000000000000000486) \<and>
   priceImpact (getQuote (a_pool 0 ''poolA'' raydium amm_v4) SOL (Fin 100000000)) =
     dminus (Fin 1)
       (ddiv (effectivePrice (getQuote (a_pool 0 ''poolA'' raydium amm_v4) SOL (Fin 100000000)))
             (ddiv (Fin 1000000000000000486) (Fin 100000000000)))"
proof -
  have h1: "(if tokenA (a_pool 0 ''poolA'' raydium amm_v4) = SOL
             then reserveA (a_pool 0 ''poolA'' raydium amm_v4)
             else reserveB (a_pool 0 ''poolA'' raydium amm_v4)) = Fin 100000000000"
    by (simp add: a_pool_def SOL_def)
  have h2: "(if tokenA (a_pool 0 ''poolA'' raydium amm_v4) = SOL
             then reserveB (a_pool 0 ''poolA'' raydium amm_v4)
             else reserveA (a_pool 0 ''poolA'' raydium amm_v4)) = Fin 1000000000000000486"
    by (simp add: a_pool_def SOL_def)
  from C6_price_impact [OF h1 h2, of "Fin 100000000"] h1 h2 show ?thesis by simp
qed

text \<open>
  C4, as stated, fails for the input \<open>0\<close>: on a pool with a fee of 25 bps the round trip
  of \<open>0\<close> returns \<open>0\<close>, which is not strictly less than the input.
\<close>

theorem C4_zero_input_counterexample:
  "fee (a_pool 0 ''poolA'' raydium amm_v4) = 25 \<and>
   roundTrip (a_pool 0 ''poolA'' raydium amm_v4) SOL (Fin 0) = Fin 0 \<and>
   \<not> dlt (roundTrip (a_pool 0 ''poolA'' raydium amm_v4) SOL (Fin 0)) (Fin 0)"
  by code_simp

text \<open>
  C4, amended: for every pool with two different mints, positive finite reserves, a fee
  of at most 10000 bps and, where present, a finite API price and a positive
  square-root price, whichever branch quotes it, and for every positive input: quoting
  one way and then quoting the proceeds back gives a final output that is strictly less
  than the input when the fee is positive; with fee \<open>0\<close> and an input that is a whole
  number of at most \<open>10\<^sup>1\<^sup>8\<close> base units, the final output is at most the input.  The
  bound holds with every operation rounded to twenty digits.
\<close>

theorem C4_round_trip:
  assumes sp: "sound_pool p" and x: "0 < x"
    and small: "fee p = 0 \<longrightarrow> x \<in> \<int> \<and> x \<le> 10 ^ 18"
  shows "\<exists>y. roundTrip p m (Fin x) = Fin y \<and> 0 \<le> y \<and> y \<le> x \<and> (0 < fee p \<longrightarrow> y < x)"
proof -
  let ?mu = "(of_int (10000 - fee p) :: rat) / 10000"
  from sp have f: "0 \<le> fee p" "fee p \<le> 10000" and ne: "tokenA p \<noteq> tokenB p"
    by (simp_all add: sound_pool_def)
  have mu0: "0 \<le> ?mu" using f by simp
  from quote_bound [OF sp] obtain r where r: "0 < r"
    and qb: "\<And>m x. 0 \<le> x \<Longrightarrow>
           \<exists>y. outputAmount (getQuote p m (Fin x)) = Fin (of_int y) \<and> 0 \<le> y \<and>
               of_int y \<le> x * ?mu * (if tokenA p = m then r else 1 / r) * K"
    by blast
  let ?r1 = "if tokenA p = m then r else 1 / r"
  let ?m2 = "outputMint (getQuote p m (Fin x))"
  let ?r2 = "if tokenA p = ?m2 then r else 1 / r"
  from qb [of x m] x obtain y1 where
    o1: "outputAmount (getQuote p m (Fin x)) = Fin (of_int y1)" and y10: "0 \<le> y1"
    and y1U: "of_int y1 \<le> x * ?mu * ?r1 * K" by auto
  have x2: "(0::rat) \<le> of_int y1" using y10 by simp
  from qb [OF x2, of ?m2] obtain y2 where
    o2: "outputAmount (getQuote p ?m2 (Fin (of_int y1))) = Fin (of_int y2)" and y20: "0 \<le> y2"
    and y2U: "of_int y2 \<le> of_int y1 * ?mu * ?r2 * K" by auto
  have rt: "roundTrip p m (Fin x) = Fin (of_int y2)"
    using o1 o2 by (simp add: roundTrip_def Let_def)
  have r12: "?r1 * ?r2 = 1"
    using ne r by (auto simp: getQuote_outputMint)
  have r2p: "0 \<le> ?mu * ?r2 * K"
    using mu0 r K_pos by simp
  have "of_int y1 * ?mu * ?r2 * K = of_int y1 * (?mu * ?r2 * K)" by simp
  also have "\<dots> \<le> (x * ?mu * ?r1 * K) * (?mu * ?r2 * K)"
    using y1U r2p by (rule mult_right_mono)
  also have "\<dots> = x * ?mu\<^sup>2 * K\<^sup>2 * (?r1 * ?r2)"
    by (simp add: power2_eq_square)
  finally have bound: "(of_int y2 :: rat) \<le> x * ?mu\<^sup>2 * K\<^sup>2"
    using y2U r12 by simp
  have "(of_int y2 :: rat) \<le> x \<and> (0 < fee p \<longrightarrow> of_int y2 < x)"
  proof (cases "fee p = 0")
    case True
    with small have xi: "x \<in> \<int>" and xs: "x \<le> 10 ^ 18" by simp_all
    have k1: "0 \<le> K\<^sup>2 - 1" using one_le_power [OF K_pos(2), of 2] by simp
    have "x * (K\<^sup>2 - 1) \<le> 10 ^ 18 * (K\<^sup>2 - 1)" using xs k1 by (rule mult_right_mono)
    also have "\<dots> < 1" using K_facts(2) by (simp add: algebra_simps)
    finally have xk: "x * K\<^sup>2 < x + 1" by (simp add: algebra_simps)
    have mu1: "?mu = 1" using True by simp
    from bound have "(of_int y2 :: rat) \<le> x * K\<^sup>2" unfolding mu1 by simp
    with xk have lt: "(of_int y2 :: rat) < x + 1" by linarith
    from xi obtain n where n: "x = of_int n" by (auto elim: Ints_cases)
    from lt have "(of_int y2 :: rat) < of_int (n + 1)" unfolding n by simp
    then have "y2 < n + 1" by (simp only: of_int_less_iff)
    then have "y2 \<le> n" by simp
    then have "(of_int y2 :: rat) \<le> x" unfolding n by simp
    with True show ?thesis by simp
  next
    case False
    with f have fp: "1 \<le> fee p" by simp
    then have muU: "?mu \<le> 9999 / 10000" by simp
    have "?mu\<^sup>2 \<le> (9999 / 10000)\<^sup>2" using mu0 muU by (intro power_mono) simp_all
    then have "?mu\<^sup>2 * K\<^sup>2 \<le> (9999 / 10000)\<^sup>2 * K\<^sup>2"
      by (intro mult_right_mono) simp_all
    also have "\<dots> < 1" using K_facts(1) by (simp add: mult.commute)
    finally have "x * (?mu\<^sup>2 * K\<^sup>2) < x * 1" using x by (intro mult_strict_left_mono) simp_all
    then have "x * ?mu\<^sup>2 * K\<^sup>2 < x" by (simp add: mult.assoc)
    with bound show ?thesis by simp
  qed
  with rt y20 show ?thesis by simp
qed

theorem C4_round_trip_witness:
  "(sound_pool (a_pool 0 ''poolA'' raydium amm_v4) \<and> (0::rat) < 100000000 \<and>
    (fee (a_pool 0 ''poolA'' raydium amm_v4) = 0 \<longrightarrow>
       (100000000::rat) \<in> \<int> \<and> (100000000::rat) \<le> 10 ^ 18)) \<and>
   (\<exists>y. roundTrip (a_pool 0 ''poolA'' raydium amm_v4) SOL (Fin 100000000) = Fin y \<and>
        0 \<le> y \<and> y \<le> 100000000 \<and>
        (0 < fee (a_pool 0 ''poolA'' raydium amm_v4) \<longrightarrow> y < 100000000)) \<and>
   roundTrip (a_pool 0 ''poolA'' raydium amm_v4) SOL (Fin 100000000) = Fin 99302763"
proof -
  have h1: "sound_pool (a_pool 0 ''poolA'' raydium amm_v4)"
    by (simp add: sound_pool_def a_pool_def positive_def)
  have h2: "(0::rat) < 100000000" by simp
  have h3: "fee (a_pool 0 ''poolA'' raydium amm_v4) = 0 \<longrightarrow>
              (100000000::rat) \<in> \<int> \<and> (100000000::rat) \<le> 10 ^ 18"
    by (simp add: a_pool_def)
  have v: "roundTrip (a_pool 0 ''poolA'' raydium amm_v4) SOL (Fin 100000000) = Fin 99302763"
    by code_simp
  from C4_round_trip [OF h1 h2 h3, of SOL] h1 h2 h3 v show ?thesis by blast
qed

end
